theory Spec2Isabelle
  imports Complex_Main "HOL-Library.Sublist" "HOL-Library.Multiset"
begin

section \<open>Strings\<close>

text \<open>
  Python strings are modelled as \<open>string\<close>. The operations below are the ones the
  resolver and the parser use, on ASCII text: \<open>lower\<close> maps \<open>A..Z\<close> to \<open>a..z\<close> and
  leaves every other character as it is; white space is the ASCII white space of
  \<open>str.isspace\<close> (codes 9 to 13, 28 to 32). A character outside ASCII is carried
  through unchanged and is neither white space, a digit nor a letter.
\<close>

definition lower_char :: "char \<Rightarrow> char" where
  "lower_char c =
     (let n = (of_char c :: nat) in if 65 \<le> n \<and> n \<le> 90 then char_of (n + 32) else c)"

definition lower :: "string \<Rightarrow> string" where
  "lower s = map lower_char s"

definition is_space :: "char \<Rightarrow> bool" where
  "is_space c = (let n = (of_char c :: nat) in (9 \<le> n \<and> n \<le> 13) \<or> (28 \<le> n \<and> n \<le> 32))"

definition is_digit :: "char \<Rightarrow> bool" where
  "is_digit c = (let n = (of_char c :: nat) in 48 \<le> n \<and> n \<le> 57)"

definition strip :: "string \<Rightarrow> string" where
  "strip s = rev (dropWhile is_space (rev (dropWhile is_space s)))"

definition replace_char :: "char \<Rightarrow> char \<Rightarrow> string \<Rightarrow> string" where
  "replace_char old new s = map (\<lambda>c. if c = old then new else c) s"

fun startswith :: "string \<Rightarrow> string \<Rightarrow> bool" where
  "startswith s [] = True"
| "startswith [] (p # ps) = False"
| "startswith (c # cs) (p # ps) = (c = p \<and> startswith cs ps)"

definition endswith :: "string \<Rightarrow> string \<Rightarrow> bool" where
  "endswith s suf = startswith (rev s) (rev suf)"

text \<open>\<open>contains s sub\<close> is Python's \<open>sub in s\<close>.\<close>

fun contains :: "string \<Rightarrow> string \<Rightarrow> bool" where
  "contains [] sub = (sub = [])"
| "contains (c # cs) sub = (startswith (c # cs) sub \<or> contains cs sub)"

section \<open>Indicator predicates (resolver.py)\<close>

definition is_percent :: "string \<Rightarrow> string \<Rightarrow> string \<Rightarrow> bool" where
  "is_percent ind_id name unit =
     (endswith ind_id ''.ZS'' \<or> contains name ''%)'' \<or> contains unit ''%''
      \<or> contains (lower unit) ''percent'')"

definition is_growth :: "string \<Rightarrow> string \<Rightarrow> bool" where
  "is_growth ind_id name =
     (endswith ind_id ''.ZG'' \<or> contains (lower name) ''growth (annual %)'')"

definition is_count :: "string \<Rightarrow> string \<Rightarrow> bool" where
  "is_count ind_id unit =
     (if endswith ind_id ''.ZS'' \<or> endswith ind_id ''.ZG'' then False
      else endswith ind_id ''.IN'' \<or> contains (lower unit) ''number'' \<or> strip unit = [])"

definition is_ppp :: "string \<Rightarrow> string \<Rightarrow> bool" where
  "is_ppp ind_id name = (contains ind_id ''.PP'' \<or> contains (lower name) ''ppp'')"

definition is_constant :: "string \<Rightarrow> string \<Rightarrow> bool" where
  "is_constant ind_id name = (endswith ind_id ''.KD'' \<or> contains (lower name) ''constant'')"

definition is_current_usd :: "string \<Rightarrow> string \<Rightarrow> string \<Rightarrow> bool" where
  "is_current_usd ind_id name unit =
     (endswith ind_id ''.CD'' \<or> contains (lower name) ''current us$''
      \<or> contains (lower unit) ''current'')"

definition has_sex :: "string \<Rightarrow> string \<Rightarrow> bool" where
  "has_sex ind_id sex =
     (if sex = ''female'' then
        contains ind_id ''.FE.'' \<or> endswith ind_id ''.FE.IN'' \<or> endswith ind_id ''.FE.ZS''
        \<or> endswith ind_id ''.FE''
      else if sex = ''male'' then
        contains ind_id ''.MA.'' \<or> endswith ind_id ''.MA.IN'' \<or> endswith ind_id ''.MA.ZS''
        \<or> endswith ind_id ''.MA''
      else if sex = ''total'' then
        \<not> (contains ind_id ''.FE.'' \<or> contains ind_id ''.MA.'')
      else True)"

definition age_codes :: "string \<rightharpoonup> string" where
  "age_codes = [''65up'' \<mapsto> ''65UP'', ''1524'' \<mapsto> ''1524'', ''0t04'' \<mapsto> ''0T04'',
                ''1564'' \<mapsto> ''1564'']"

definition has_age :: "string \<Rightarrow> string \<Rightarrow> bool" where
  "has_age ind_id age_band =
     (if age_band = ''none'' then True
      else case age_codes age_band of
             Some code \<Rightarrow> (if code \<noteq> [] then contains ind_id code else True)
           | None \<Rightarrow> True)"

section \<open>Candidates and slots\<close>

text \<open>
  A catalog row, a candidate as \<open>resolve\<close> builds it from a row and a retrieval score,
  and a scored candidate: the same dictionary after \<open>_score_candidates\<close> has stored
  the key \<open>score\<close> in it. Python floats are modelled as real numbers (no rounding, no
  NaN, no infinities).
\<close>

record catalog_row =
  row_id :: string
  row_name :: string
  row_unit :: string
  row_topics :: string
  row_sourceNote :: string
  row_source :: string

record candidate =
  cand_id :: string
  cand_name :: string
  cand_unit :: string
  topics :: string
  sourceNote :: string
  source :: string
  semantic :: real

record scored_candidate = candidate +
  score :: real

text \<open>The slots dictionary, with the keys and value types \<open>_parse_with_dspy\<close> gives it.\<close>

record slots =
  country_text :: string
  time_mode :: string
  year :: "int option"
  start_year :: "int option"
  end_year :: "int option"
  latest_n :: "int option"
  concept :: string
  unit_qualifiers :: "string list"
  sex :: string
  age_band :: string
  slot_notes :: string

section \<open>The constraint filter (\<open>_apply_constraints\<close>)\<close>

fun apply_constraints :: "candidate list \<Rightarrow> slots \<Rightarrow> candidate list" where
  "apply_constraints [] s = []"
| "apply_constraints (cand # cands) s =
     (let uq = set (unit_qualifiers s) in
      if ''ppp'' \<in> uq \<and> \<not> is_ppp (cand_id cand) (cand_name cand) then
        apply_constraints cands s
      else if ''growth_rate'' \<in> uq \<and> \<not> is_growth (cand_id cand) (cand_name cand) then
        apply_constraints cands s
      else if ''percent_share'' \<in> uq
              \<and> \<not> is_percent (cand_id cand) (cand_name cand) (cand_unit cand)
              \<and> \<not> contains (lower (cand_name cand)) ''rate'' then
        apply_constraints cands s
      else if \<not> has_sex (cand_id cand) (sex s) then
        apply_constraints cands s
      else if \<not> has_age (cand_id cand) (age_band s) then
        apply_constraints cands s
      else cand # apply_constraints cands s)"

section \<open>The scorer (\<open>_score_candidates\<close>)\<close>

definition hit :: "bool \<Rightarrow> real" where
  "hit b = (if b then 1 else 0)"

definition unit_match :: "slots \<Rightarrow> candidate \<Rightarrow> real" where
  "unit_match s cand =
     (let uq = set (unit_qualifiers s) in
      0
      + hit (''ppp'' \<in> uq \<and> is_ppp (cand_id cand) (cand_name cand))
      + hit (''growth_rate'' \<in> uq \<and> is_growth (cand_id cand) (cand_name cand))
      + hit (''percent_share'' \<in> uq
             \<and> is_percent (cand_id cand) (cand_name cand) (cand_unit cand))
      + hit (''count_number'' \<in> uq \<and> is_count (cand_id cand) (cand_unit cand))
      + hit (''constant_usd'' \<in> uq \<and> is_constant (cand_id cand) (cand_name cand))
      + hit (''current_usd'' \<in> uq
             \<and> is_current_usd (cand_id cand) (cand_name cand) (cand_unit cand))
      + hit (''per_capita'' \<in> uq
             \<and> (contains (cand_id cand) ''.PC''
                  \<or> contains (lower (cand_name cand)) ''per capita'')))"

definition demo_match :: "slots \<Rightarrow> candidate \<Rightarrow> real" where
  "demo_match s cand =
     0 + hit (has_sex (cand_id cand) (sex s)) + hit (has_age (cand_id cand) (age_band s))"

definition prior :: "slots \<Rightarrow> candidate \<Rightarrow> real" where
  "prior s cand =
     (let c = lower (concept s) in
      0
      + (if (c = ''inflation'' \<or> c = ''inflation_cpi'')
            \<and> (contains (lower (cand_name cand)) ''consumer prices (annual %)''
                 \<or> cand_id cand = ''FP.CPI.TOTL.ZG'')
         then 1 else 0)
      + (if c = ''gdp'' \<and> startswith (cand_id cand) ''NY.GDP.MKTP'' then 1 else 0)
      + (if c = ''population'' then
           (if cand_id cand = ''SP.POP.TOTL'' \<and> sex s = ''total'' then 2
            else if startswith (cand_id cand) ''SP.POP'' then 0.8
            else 0)
         else 0))"

text \<open>The combined score, with the source's fifth term \<open>0.05 * 0.0\<close>.\<close>

definition combined_score :: "slots \<Rightarrow> candidate \<Rightarrow> real" where
  "combined_score s cand =
     0.45 * semantic cand + 0.25 * unit_match s cand + 0.15 * demo_match s cand
     + 0.10 * prior s cand + 0.05 * 0.0"

text \<open>\<open>cand["score"] = ...\<close>: the candidate gains the key \<open>score\<close>.\<close>

definition attach_score :: "slots \<Rightarrow> candidate \<Rightarrow> scored_candidate" where
  "attach_score s cand = candidate.extend cand \<lparr>score = combined_score s cand\<rparr>"

text \<open>
  \<open>candidates.sort(key=lambda x: x["score"], reverse=True)\<close>: a stable sort, largest
  score first; candidates of equal score keep their order.
\<close>

definition sort_by_score_desc :: "scored_candidate list \<Rightarrow> scored_candidate list" where
  "sort_by_score_desc cs = sort_key (\<lambda>c. - score c) cs"

definition score_candidates :: "candidate list \<Rightarrow> slots \<Rightarrow> scored_candidate list" where
  "score_candidates cands s = sort_by_score_desc (map (attach_score s) cands)"

section \<open>Regular expressions of the query term builder\<close>

text \<open>
  \<open>build_query_terms\<close> cleans the concept with six calls of \<open>re.sub\<close>. The patterns
  are built from character classes, case-insensitive literals, optional literals,
  alternatives, greedy and lazy repetitions of a class and the word boundary \<open>\b\<close>.
  The matcher below is a backtracking matcher in the list-of-successes style: each
  step returns the states it can reach, in the order in which Python's matcher tries
  them, so the head of the list is the match Python finds. A state is the character
  before the current position (\<open>None\<close> at the start of the string) and the rest of
  the input.
\<close>

datatype char_class = WhiteSpace | AgeChars | AnyButNewline | Exactly char

definition is_word_char :: "char \<Rightarrow> bool" where
  "is_word_char c =
     (let n = (of_char c :: nat) in
      (48 \<le> n \<and> n \<le> 57) \<or> (65 \<le> n \<and> n \<le> 90) \<or> (97 \<le> n \<and> n \<le> 122) \<or> n = 95)"

text \<open>\<open>AgeChars\<close> is the class \<open>[\d\-\+\sandabove]\<close> under \<open>re.IGNORECASE\<close>.\<close>

fun in_class :: "char_class \<Rightarrow> char \<Rightarrow> bool" where
  "in_class WhiteSpace c = is_space c"
| "in_class AgeChars c =
     (is_digit c \<or> c = CHR ''-'' \<or> c = CHR ''+'' \<or> is_space c
      \<or> lower_char c \<in> set ''andabove'')"
| "in_class AnyButNewline c = (c \<noteq> CHR 0x0A)"
| "in_class (Exactly d) c = (c = d)"

datatype piece = Lit string | Opt string

datatype atom =
    One char_class
  | Alt "piece list list"
  | Greedy nat char_class
  | Lazy char_class
  | WordBoundary

type_synonym match_state = "char option \<times> string"

fun match_lit :: "string \<Rightarrow> match_state \<Rightarrow> match_state option" where
  "match_lit [] st = Some st"
| "match_lit (l # ls) (p, []) = None"
| "match_lit (l # ls) (p, c # cs) =
     (if lower_char c = lower_char l then match_lit ls (Some c, cs) else None)"

fun piece_steps :: "piece \<Rightarrow> match_state \<Rightarrow> match_state list" where
  "piece_steps (Lit l) st = (case match_lit l st of None \<Rightarrow> [] | Some st' \<Rightarrow> [st'])"
| "piece_steps (Opt l) st = (case match_lit l st of None \<Rightarrow> [] | Some st' \<Rightarrow> [st']) @ [st]"

fun pieces_steps :: "piece list \<Rightarrow> match_state \<Rightarrow> match_state list" where
  "pieces_steps [] st = [st]"
| "pieces_steps (q # qs) st = concat (map (pieces_steps qs) (piece_steps q st))"

fun advance :: "nat \<Rightarrow> match_state \<Rightarrow> match_state" where
  "advance 0 st = st"
| "advance (Suc n) (p, []) = (p, [])"
| "advance (Suc n) (p, c # cs) = advance n (Some c, cs)"

definition run_length :: "char_class \<Rightarrow> string \<Rightarrow> nat" where
  "run_length k s = length (takeWhile (in_class k) s)"

definition word_before :: "char option \<Rightarrow> bool" where
  "word_before p = (case p of None \<Rightarrow> False | Some c \<Rightarrow> is_word_char c)"

definition word_after :: "string \<Rightarrow> bool" where
  "word_after s = (case s of [] \<Rightarrow> False | c # _ \<Rightarrow> is_word_char c)"

fun atom_steps :: "atom \<Rightarrow> match_state \<Rightarrow> match_state list" where
  "atom_steps (One k) (p, s) =
     (case s of [] \<Rightarrow> [] | c # cs \<Rightarrow> if in_class k c then [(Some c, cs)] else [])"
| "atom_steps (Alt alts) st = concat (map (\<lambda>qs. pieces_steps qs st) alts)"
| "atom_steps (Greedy n k) (p, s) =
     map (\<lambda>j. advance j (p, s)) (rev [n ..< Suc (run_length k s)])"
| "atom_steps (Lazy k) (p, s) =
     map (\<lambda>j. advance j (p, s)) [0 ..< Suc (run_length k s)]"
| "atom_steps WordBoundary (p, s) =
     (if word_before p \<noteq> word_after s then [(p, s)] else [])"

fun regex_steps :: "atom list \<Rightarrow> match_state \<Rightarrow> match_state list" where
  "regex_steps [] st = [st]"
| "regex_steps (a # as) st = concat (map (regex_steps as) (atom_steps a st))"

definition re_match :: "atom list \<Rightarrow> match_state \<Rightarrow> match_state option" where
  "re_match r st = (case regex_steps r st of [] \<Rightarrow> None | st' # _ \<Rightarrow> Some st')"

text \<open>
  \<open>re.sub(r, repl, s)\<close>: scan from the left, replace each match by \<open>repl\<close> and go on
  after it. None of the six patterns matches the empty string; a match that
  consumes nothing is treated as no match at that position.
\<close>

function re_sub :: "atom list \<Rightarrow> string \<Rightarrow> char option \<Rightarrow> string \<Rightarrow> string" where
  "re_sub r repl p [] = []"
| "re_sub r repl p (c # cs) =
     (case re_match r (p, c # cs) of
        None \<Rightarrow> c # re_sub r repl (Some c) cs
      | Some (p', rest) \<Rightarrow>
          if length rest < length (c # cs) then repl @ re_sub r repl p' rest
          else c # re_sub r repl (Some c) cs)"
  by pat_completeness auto
termination
  by (relation "measure (\<lambda>(r, repl, p, s). length s)") auto

text \<open>\<open>(fe)?male\<close>, \<open>(ages?|age)\<close>, \<open>ages?\<close> and \<open>(male|female)\<close>.\<close>

definition fe_male :: atom where
  "fe_male = Alt [[Opt ''fe'', Lit ''male'']]"

definition ages_or_age :: atom where
  "ages_or_age = Alt [[Lit ''age'', Opt ''s''], [Lit ''age'']]"

definition ages_opt :: atom where
  "ages_opt = Alt [[Lit ''age'', Opt ''s'']]"

definition male_or_female :: atom where
  "male_or_female = Alt [[Lit ''male''], [Lit ''female'']]"

text \<open>The six patterns, in the order of the source.\<close>

definition pat_sex_ages :: "atom list" where
  "pat_sex_ages =
     [WordBoundary, fe_male, Greedy 1 WhiteSpace, ages_or_age, Greedy 1 WhiteSpace,
      Greedy 1 AgeChars]"

definition pat_sex :: "atom list" where
  "pat_sex = [WordBoundary, fe_male]"

definition pat_ages :: "atom list" where
  "pat_ages = [WordBoundary, ages_opt, Greedy 1 WhiteSpace, Greedy 1 AgeChars]"

definition pat_paren_ages :: "atom list" where
  "pat_paren_ages =
     [Greedy 0 WhiteSpace, One (Exactly (CHR ''('')), ages_opt, Greedy 1 WhiteSpace,
      Greedy 1 AgeChars, One (Exactly (CHR '')''))]"

definition pat_paren_sex :: "atom list" where
  "pat_paren_sex =
     [Greedy 0 WhiteSpace, One (Exactly (CHR ''('')), Lazy AnyButNewline, male_or_female,
      Lazy AnyButNewline, One (Exactly (CHR '')''))]"

definition pat_spaces :: "atom list" where
  "pat_spaces = [Greedy 1 WhiteSpace]"

section \<open>The query term builder (\<open>build_query_terms\<close>)\<close>

definition clean_concept :: "string \<Rightarrow> string" where
  "clean_concept raw =
     (let c0 = replace_char (CHR 0x0D) (CHR '' '')
                 (replace_char (CHR 0x0A) (CHR '' '') (replace_char (CHR ''_'') (CHR '' '') raw));
          c1 = re_sub pat_sex_ages [] None c0;
          c2 = re_sub pat_sex [] None c1;
          c3 = re_sub pat_ages [] None c2;
          c4 = re_sub pat_paren_ages [] None c3;
          c5 = re_sub pat_paren_sex [] None c4
      in strip (re_sub pat_spaces '' '' None c5))"

definition qualifier_token :: "string \<Rightarrow> string list" where
  "qualifier_token qualifier =
     (if qualifier = ''percent_share'' then [''percent'']
      else if qualifier = ''growth_rate'' then [''growth'']
      else if qualifier = ''per_capita'' then [''per capita'']
      else if qualifier = ''ppp'' then [''ppp'']
      else if qualifier = ''current_usd'' then [''current'']
      else if qualifier = ''constant_usd'' then [''constant'']
      else [])"

definition age_map :: "string \<rightharpoonup> string" where
  "age_map = [''65up'' \<mapsto> ''65+'', ''1524'' \<mapsto> ''15-24'', ''0t04'' \<mapsto> ''0-4'',
              ''1564'' \<mapsto> ''15-64'']"

fun join_spaces :: "string list \<Rightarrow> string" where
  "join_spaces [] = []"
| "join_spaces [b] = b"
| "join_spaces (b # bs) = b @ '' '' @ join_spaces bs"

text \<open>
  The tokens, before they are joined. The source iterates over \<open>set(unit_qualifiers)\<close>;
  Python does not fix the order in which a set of strings is visited, so the order
  is a parameter: \<open>set_order xs\<close> is the sequence in which the set built from the list
  \<open>xs\<close> is visited.
\<close>

definition query_bits :: "(string list \<Rightarrow> string list) \<Rightarrow> slots \<Rightarrow> string list" where
  "query_bits set_order s =
     (let c = clean_concept (concept s) in
      (if c \<noteq> [] \<and> c \<noteq> ''unknown'' then [c] else [])
      @ concat (map qualifier_token (set_order (unit_qualifiers s)))
      @ (if sex s \<noteq> [] \<and> sex s \<noteq> ''total'' then [sex s] else [])
      @ (if age_band s \<noteq> [] \<and> age_band s \<noteq> ''none'' then
           [case age_map (age_band s) of Some a \<Rightarrow> a | None \<Rightarrow> age_band s]
         else []))"

definition build_query_terms :: "(string list \<Rightarrow> string list) \<Rightarrow> slots \<Rightarrow> string" where
  "build_query_terms set_order s =
     (let query = strip (join_spaces (query_bits set_order s)) in
      if query \<noteq> [] then query else clean_concept (concept s))"

section \<open>The resolver (\<open>IndicatorResolver.resolve\<close>)\<close>

text \<open>
  \<open>resolve\<close> raises \<open>ValueError\<close> with a message that quotes the query; \<open>scored[0]\<close>
  on an empty list would raise \<open>IndexError\<close>, reading a missing key of a dictionary
  \<open>KeyError\<close>, \<open>.lower()\<close> on a float \<open>AttributeError\<close> and \<open>in\<close> on a float
  \<open>TypeError\<close>. The f-string of the notes,
  \<open>query='{query}', semantic={best['semantic']:.3f}\<close>, is kept as the two values
  it renders.
\<close>

datatype error = ValueError string | IndexError | KeyError | AttributeError | TypeError

definition no_indicator_message :: "string \<Rightarrow> string" where
  "no_indicator_message query =
     ''No suitable indicator after constraints for query='' @ [CHR 0x27] @ query @ [CHR 0x27]"

record resolution =
  res_id :: string
  res_name :: string
  res_unit :: string
  confidence_margin :: real
  notes_query :: string
  notes_semantic :: real

text \<open>The first loop of \<open>resolve\<close>: ids that the catalog does not know are skipped.\<close>

fun build_candidates :: "(string \<rightharpoonup> catalog_row) \<Rightarrow> (string \<times> real) list \<Rightarrow> candidate list" where
  "build_candidates id2row [] = []"
| "build_candidates id2row ((ind_id, semantic_score) # rest) =
     (case id2row ind_id of
        None \<Rightarrow> build_candidates id2row rest
      | Some row \<Rightarrow>
          \<lparr>cand_id = row_id row, cand_name = row_name row, cand_unit = row_unit row,
           topics = row_topics row, sourceNote = row_sourceNote row, source = row_source row,
           semantic = semantic_score\<rparr> # build_candidates id2row rest)"

definition resolve ::
  "(string list \<Rightarrow> string list) \<Rightarrow> (string \<rightharpoonup> catalog_row) \<Rightarrow> slots \<Rightarrow> (string \<times> real) list
   \<Rightarrow> error + resolution" where
  "resolve set_order id2row s search_results =
     (let candidates = build_candidates id2row search_results;
          filtered = apply_constraints candidates s
      in if filtered = [] then
           Inl (ValueError (no_indicator_message (build_query_terms set_order s)))
         else
           (let scored = score_candidates filtered s in
            case scored of
              [] \<Rightarrow> Inl IndexError
            | best # others \<Rightarrow>
                (let second_score = (case others of [] \<Rightarrow> 0 | second # _ \<Rightarrow> score second);
                     margin = max 0 (score best - second_score);
                     query = build_query_terms set_order s
                 in Inr \<lparr>res_id = cand_id best, res_name = cand_name best,
                         res_unit = cand_unit best, confidence_margin = margin,
                         notes_query = query, notes_semantic = semantic best\<rparr>)))"

text \<open>
  The resolver object: the catalog table and the dictionary \<open>__init__\<close> builds from it
  (a later row with the same id replaces an earlier one).
\<close>

record resolver =
  ind_df :: "catalog_row list"
  id2row :: "string \<rightharpoonup> catalog_row"

definition init_resolver :: "catalog_row list \<Rightarrow> resolver" where
  "init_resolver df = \<lparr>ind_df = df, id2row = foldl (\<lambda>m row. m(row_id row \<mapsto> row)) Map.empty df\<rparr>"

section \<open>The resolver on a catalog with empty name cells\<close>

text \<open>
  \<open>resolve\<close> copies \<open>row["name"]\<close> into the candidate as it is, while it passes the
  unit, the topics and the two source fields through \<open>str()\<close>. pandas reads an empty
  cell as the float NaN, so the name of a candidate is text or NaN. On NaN,
  \<open>name.lower()\<close> raises \<open>AttributeError\<close> and \<open>"%)" in name\<close> raises \<open>TypeError\<close>.
  The definitions of this section follow the same source lines as those above, with
  the name as a cell and every test of the name in the place and order in which the
  source evaluates it: \<open>or\<close> and \<open>and\<close> do not evaluate their right operand when the
  left one decides. On names that are text they agree with the definitions above.
\<close>

datatype cell = Text string | NaN

record pandas_row =
  pr_id :: string
  pr_name :: cell
  pr_unit :: string
  pr_topics :: string
  pr_sourceNote :: string
  pr_source :: string

record pandas_candidate =
  pc_id :: string
  pc_name :: cell
  pc_unit :: string
  pc_topics :: string
  pc_sourceNote :: string
  pc_source :: string
  pc_semantic :: real

record pandas_scored = pandas_candidate +
  pc_score :: real

record pandas_resolution =
  pres_id :: string
  pres_name :: cell
  pres_unit :: string
  pres_margin :: real
  pres_query :: string
  pres_semantic :: real

definition and_then :: "error + 'a \<Rightarrow> ('a \<Rightarrow> error + 'b) \<Rightarrow> error + 'b" where
  "and_then r f = (case r of Inl e \<Rightarrow> Inl e | Inr v \<Rightarrow> f v)"

definition in_lowered :: "string \<Rightarrow> cell \<Rightarrow> error + bool" where
  "in_lowered sub name =
     (case name of Text n \<Rightarrow> Inr (contains (lower n) sub) | NaN \<Rightarrow> Inl AttributeError)"

definition in_cell :: "string \<Rightarrow> cell \<Rightarrow> error + bool" where
  "in_cell sub name = (case name of Text n \<Rightarrow> Inr (contains n sub) | NaN \<Rightarrow> Inl TypeError)"

definition is_percent_cell :: "string \<Rightarrow> cell \<Rightarrow> string \<Rightarrow> error + bool" where
  "is_percent_cell ind_id name unit =
     (if endswith ind_id ''.ZS'' then Inr True
      else and_then (in_cell ''%)'' name)
             (\<lambda>b. Inr (b \<or> contains unit ''%'' \<or> contains (lower unit) ''percent'')))"

definition is_growth_cell :: "string \<Rightarrow> cell \<Rightarrow> error + bool" where
  "is_growth_cell ind_id name =
     (if endswith ind_id ''.ZG'' then Inr True else in_lowered ''growth (annual %)'' name)"

definition is_ppp_cell :: "string \<Rightarrow> cell \<Rightarrow> error + bool" where
  "is_ppp_cell ind_id name =
     (if contains ind_id ''.PP'' then Inr True else in_lowered ''ppp'' name)"

definition is_constant_cell :: "string \<Rightarrow> cell \<Rightarrow> error + bool" where
  "is_constant_cell ind_id name =
     (if endswith ind_id ''.KD'' then Inr True else in_lowered ''constant'' name)"

definition is_current_usd_cell :: "string \<Rightarrow> cell \<Rightarrow> string \<Rightarrow> error + bool" where
  "is_current_usd_cell ind_id name unit =
     (if endswith ind_id ''.CD'' then Inr True
      else and_then (in_lowered ''current us$'' name)
             (\<lambda>b. Inr (b \<or> contains (lower unit) ''current'')))"

definition is_per_capita_cell :: "string \<Rightarrow> cell \<Rightarrow> error + bool" where
  "is_per_capita_cell ind_id name =
     (if contains ind_id ''.PC'' then Inr True else in_lowered ''per capita'' name)"

definition when_requested :: "bool \<Rightarrow> error + bool \<Rightarrow> error + bool" where
  "when_requested requested check = (if requested then check else Inr False)"

definition passes_cell :: "slots \<Rightarrow> pandas_candidate \<Rightarrow> error + bool" where
  "passes_cell s cand =
     (let uq = set (unit_qualifiers s) in
      and_then (if ''ppp'' \<in> uq then is_ppp_cell (pc_id cand) (pc_name cand) else Inr True)
        (\<lambda>ppp_ok. if \<not> ppp_ok then Inr False else
      and_then (if ''growth_rate'' \<in> uq then is_growth_cell (pc_id cand) (pc_name cand)
                else Inr True)
        (\<lambda>growth_ok. if \<not> growth_ok then Inr False else
      and_then (if ''percent_share'' \<in> uq then
                  and_then (is_percent_cell (pc_id cand) (pc_name cand) (pc_unit cand))
                    (\<lambda>percent. if percent then Inr True
                               else in_lowered ''rate'' (pc_name cand))
                else Inr True)
        (\<lambda>percent_ok. if \<not> percent_ok then Inr False
           else if \<not> has_sex (pc_id cand) (sex s) then Inr False
           else if \<not> has_age (pc_id cand) (age_band s) then Inr False
           else Inr True))))"

fun apply_constraints_cells ::
  "pandas_candidate list \<Rightarrow> slots \<Rightarrow> error + pandas_candidate list" where
  "apply_constraints_cells [] s = Inr []"
| "apply_constraints_cells (cand # cands) s =
     and_then (passes_cell s cand)
       (\<lambda>keep. and_then (apply_constraints_cells cands s)
          (\<lambda>filtered. Inr (if keep then cand # filtered else filtered)))"

definition unit_match_cell :: "slots \<Rightarrow> pandas_candidate \<Rightarrow> error + real" where
  "unit_match_cell s cand =
     (let uq = set (unit_qualifiers s) in
      and_then (when_requested (''ppp'' \<in> uq) (is_ppp_cell (pc_id cand) (pc_name cand)))
        (\<lambda>h1.
      and_then (when_requested (''growth_rate'' \<in> uq)
                  (is_growth_cell (pc_id cand) (pc_name cand)))
        (\<lambda>h2.
      and_then (when_requested (''percent_share'' \<in> uq)
                  (is_percent_cell (pc_id cand) (pc_name cand) (pc_unit cand)))
        (\<lambda>h3.
      and_then (when_requested (''count_number'' \<in> uq)
                  (Inr (is_count (pc_id cand) (pc_unit cand))))
        (\<lambda>h4.
      and_then (when_requested (''constant_usd'' \<in> uq)
                  (is_constant_cell (pc_id cand) (pc_name cand)))
        (\<lambda>h5.
      and_then (when_requested (''current_usd'' \<in> uq)
                  (is_current_usd_cell (pc_id cand) (pc_name cand) (pc_unit cand)))
        (\<lambda>h6.
      and_then (when_requested (''per_capita'' \<in> uq)
                  (is_per_capita_cell (pc_id cand) (pc_name cand)))
        (\<lambda>h7.
      Inr (0 + hit h1 + hit h2 + hit h3 + hit h4 + hit h5 + hit h6 + hit h7)))))))))"

definition prior_cell :: "slots \<Rightarrow> pandas_candidate \<Rightarrow> error + real" where
  "prior_cell s cand =
     (let c = lower (concept s) in
      and_then (if c = ''inflation'' \<or> c = ''inflation_cpi'' then
                  and_then (in_lowered ''consumer prices (annual %)'' (pc_name cand))
                    (\<lambda>b. Inr (if b \<or> pc_id cand = ''FP.CPI.TOTL.ZG'' then 1 else 0))
                else Inr 0)
        (\<lambda>inflation_boost.
      Inr (0 + inflation_boost
           + (if c = ''gdp'' \<and> startswith (pc_id cand) ''NY.GDP.MKTP'' then 1 else 0)
           + (if c = ''population'' then
                (if pc_id cand = ''SP.POP.TOTL'' \<and> sex s = ''total'' then 2
                 else if startswith (pc_id cand) ''SP.POP'' then 0.8
                 else 0)
              else 0))))"

definition combined_score_cell :: "slots \<Rightarrow> pandas_candidate \<Rightarrow> error + real" where
  "combined_score_cell s cand =
     and_then (unit_match_cell s cand)
       (\<lambda>unit_match'.
     and_then (prior_cell s cand)
       (\<lambda>prior'.
     Inr (0.45 * pc_semantic cand + 0.25 * unit_match'
          + 0.15 * (0 + hit (has_sex (pc_id cand) (sex s))
                      + hit (has_age (pc_id cand) (age_band s)))
          + 0.10 * prior' + 0.05 * 0.0)))"

fun attach_scores_cells ::
  "pandas_candidate list \<Rightarrow> slots \<Rightarrow> error + pandas_scored list" where
  "attach_scores_cells [] s = Inr []"
| "attach_scores_cells (cand # cands) s =
     and_then (combined_score_cell s cand)
       (\<lambda>v. and_then (attach_scores_cells cands s)
          (\<lambda>scored. Inr (pandas_candidate.extend cand \<lparr>pc_score = v\<rparr> # scored)))"

definition score_candidates_cells ::
  "pandas_candidate list \<Rightarrow> slots \<Rightarrow> error + pandas_scored list" where
  "score_candidates_cells cands s =
     and_then (attach_scores_cells cands s)
       (\<lambda>scored. Inr (sort_key (\<lambda>c. - pc_score c) scored))"

fun build_candidates_cells ::
  "(string \<rightharpoonup> pandas_row) \<Rightarrow> (string \<times> real) list \<Rightarrow> pandas_candidate list" where
  "build_candidates_cells table [] = []"
| "build_candidates_cells table ((ind_id, semantic_score) # rest) =
     (case table ind_id of
        None \<Rightarrow> build_candidates_cells table rest
      | Some row \<Rightarrow>
          \<lparr>pc_id = pr_id row, pc_name = pr_name row, pc_unit = pr_unit row,
           pc_topics = pr_topics row, pc_sourceNote = pr_sourceNote row,
           pc_source = pr_source row, pc_semantic = semantic_score\<rparr>
          # build_candidates_cells table rest)"

definition resolve_cells ::
  "(string list \<Rightarrow> string list) \<Rightarrow> (string \<rightharpoonup> pandas_row) \<Rightarrow> slots \<Rightarrow> (string \<times> real) list
   \<Rightarrow> error + pandas_resolution" where
  "resolve_cells set_order table s search_results =
     and_then (apply_constraints_cells (build_candidates_cells table search_results) s)
       (\<lambda>filtered.
          if filtered = [] then
            Inl (ValueError (no_indicator_message (build_query_terms set_order s)))
          else
            and_then (score_candidates_cells filtered s)
              (\<lambda>scored.
                 case scored of
                   [] \<Rightarrow> Inl IndexError
                 | best # others \<Rightarrow>
                     (let second_score =
                            (case others of [] \<Rightarrow> 0 | second # _ \<Rightarrow> pc_score second);
                          margin = max 0 (pc_score best - second_score);
                          query = build_query_terms set_order s
                      in Inr \<lparr>pres_id = pc_id best, pres_name = pc_name best,
                              pres_unit = pc_unit best, pres_margin = margin,
                              pres_query = query, pres_semantic = pc_semantic best\<rparr>)))"

section \<open>The resolver with its candidates in memory\<close>

text \<open>
  The candidates of a call are dictionaries in the memory of the process: \<open>resolve\<close>
  creates them, \<open>_apply_constraints\<close> collects references to them, \<open>_score_candidates\<close>
  writes the key \<open>score\<close> into each and sorts the list of references in place. Memory
  is a list of dictionaries (a candidate and its score, if it has one); a reference is
  the position of its dictionary, and a dictionary stays where it is. The process also
  holds the seed of its string hashes, which fixes the order in which a set of strings
  is visited: \<open>visit seed xs\<close> is that order for the set built from \<open>xs\<close>. A call
  returns its result and the process as it leaves it.
\<close>

type_synonym py_dict = "candidate \<times> real option"

record process =
  hash_seed :: nat
  objects :: "py_dict list"

fun alloc_candidates ::
  "(string \<rightharpoonup> catalog_row) \<Rightarrow> (string \<times> real) list \<Rightarrow> py_dict list \<Rightarrow> nat list \<times> py_dict list" where
  "alloc_candidates table [] h = ([], h)"
| "alloc_candidates table ((ind_id, semantic_score) # rest) h =
     (case table ind_id of
        None \<Rightarrow> alloc_candidates table rest h
      | Some row \<Rightarrow>
          (let new = (\<lparr>cand_id = row_id row, cand_name = row_name row, cand_unit = row_unit row,
                        topics = row_topics row, sourceNote = row_sourceNote row,
                        source = row_source row, semantic = semantic_score\<rparr>, None);
               (refs, h') = alloc_candidates table rest (h @ [new])
           in (length h # refs, h')))"

fun filter_refs :: "py_dict list \<Rightarrow> nat list \<Rightarrow> slots \<Rightarrow> nat list" where
  "filter_refs h [] s = []"
| "filter_refs h (a # refs) s =
     (let uq = set (unit_qualifiers s); cand = fst (h ! a) in
      if ''ppp'' \<in> uq \<and> \<not> is_ppp (cand_id cand) (cand_name cand) then
        filter_refs h refs s
      else if ''growth_rate'' \<in> uq \<and> \<not> is_growth (cand_id cand) (cand_name cand) then
        filter_refs h refs s
      else if ''percent_share'' \<in> uq
              \<and> \<not> is_percent (cand_id cand) (cand_name cand) (cand_unit cand)
              \<and> \<not> contains (lower (cand_name cand)) ''rate'' then
        filter_refs h refs s
      else if \<not> has_sex (cand_id cand) (sex s) then
        filter_refs h refs s
      else if \<not> has_age (cand_id cand) (age_band s) then
        filter_refs h refs s
      else a # filter_refs h refs s)"

fun score_refs :: "py_dict list \<Rightarrow> nat list \<Rightarrow> slots \<Rightarrow> py_dict list" where
  "score_refs h [] s = h"
| "score_refs h (a # refs) s =
     score_refs (h[a := (fst (h ! a), Some (combined_score s (fst (h ! a))))]) refs s"

definition read_score :: "py_dict list \<Rightarrow> nat \<Rightarrow> error + real" where
  "read_score h a = (case snd (h ! a) of None \<Rightarrow> Inl KeyError | Some v \<Rightarrow> Inr v)"

definition sort_refs :: "py_dict list \<Rightarrow> nat list \<Rightarrow> error + nat list" where
  "sort_refs h refs =
     (if list_all (\<lambda>a. snd (h ! a) \<noteq> None) refs
      then Inr (sort_key (\<lambda>a. - the (snd (h ! a))) refs)
      else Inl KeyError)"

definition best_match ::
  "string \<Rightarrow> py_dict list \<Rightarrow> error + nat list \<Rightarrow> error + resolution" where
  "best_match query h ranked =
     (case ranked of
        Inl e \<Rightarrow> Inl e
      | Inr [] \<Rightarrow> Inl IndexError
      | Inr (best # others) \<Rightarrow>
          (case read_score h best of
             Inl e \<Rightarrow> Inl e
           | Inr best_score \<Rightarrow>
               (case (case others of [] \<Rightarrow> Inr 0 | second # _ \<Rightarrow> read_score h second) of
                  Inl e \<Rightarrow> Inl e
                | Inr second_score \<Rightarrow>
                    Inr \<lparr>res_id = cand_id (fst (h ! best)), res_name = cand_name (fst (h ! best)),
                         res_unit = cand_unit (fst (h ! best)),
                         confidence_margin = max 0 (best_score - second_score),
                         notes_query = query, notes_semantic = semantic (fst (h ! best))\<rparr>)))"

definition resolve_in ::
  "(nat \<Rightarrow> string list \<Rightarrow> string list) \<Rightarrow> (string \<rightharpoonup> catalog_row) \<Rightarrow> slots
   \<Rightarrow> (string \<times> real) list \<Rightarrow> process \<Rightarrow> (error + resolution) \<times> process" where
  "resolve_in visit table s search_results p =
     (let (candidates, h1) = alloc_candidates table search_results (objects p);
          filtered = filter_refs h1 candidates s
      in if filtered = [] then
           (Inl (ValueError (no_indicator_message (build_query_terms (visit (hash_seed p)) s))),
            p\<lparr>objects := h1\<rparr>)
         else
           (let h2 = score_refs h1 filtered s
            in (best_match (build_query_terms (visit (hash_seed p)) s) h2 (sort_refs h2 filtered),
                p\<lparr>objects := h2\<rparr>)))"

section \<open>The slot normalizer (\<open>QuestionParser._parse_with_dspy\<close>)\<close>

text \<open>
  The five fields the predictor returns. The predictor is a language model; what
  follows it in \<open>_parse_with_dspy\<close> is a function of these fields and the question.
\<close>

record raw_extraction =
  raw_country :: string
  raw_concept :: string
  raw_year :: string
  raw_unit :: string
  raw_demographics :: string

definition none_if_none :: "string \<Rightarrow> string option" where
  "none_if_none field = (if lower (strip field) \<noteq> ''none'' then Some (strip field) else None)"

definition or_empty :: "string option \<Rightarrow> string" where
  "or_empty v = (case v of None \<Rightarrow> [] | Some x \<Rightarrow> x)"

definition isdigit :: "string \<Rightarrow> bool" where
  "isdigit t = (t \<noteq> [] \<and> list_all is_digit t)"

definition int_of_digits :: "string \<Rightarrow> int" where
  "int_of_digits t = foldl (\<lambda>a c. 10 * a + (int (of_char c) - 48)) 0 t"

definition any_in :: "string list \<Rightarrow> string \<Rightarrow> bool" where
  "any_in keys text = list_ex (\<lambda>k. contains text k) keys"

definition normalized_concept :: "raw_extraction \<Rightarrow> string \<Rightarrow> string" where
  "normalized_concept result question =
     (let q = lower question;
          c = replace_char (CHR '' '') (CHR ''_'') (lower (strip (raw_concept result)))
      in if contains q ''cpi'' \<or> contains q ''consumer price index'' then ''inflation_cpi'' else c)"

definition has_growth :: "string \<Rightarrow> bool" where
  "has_growth q = (contains q ''growth rate'' \<or> contains q ''growth'' \<or> contains q ''yoy'')"

text \<open>The unit qualifiers up to the line that reads the demographics.\<close>

definition unit_qualifiers_before_sex :: "string \<Rightarrow> string \<Rightarrow> string list" where
  "unit_qualifiers_before_sex unit q =
     (if contains unit ''per capita'' \<or> contains q ''per capita'' then [''per_capita''] else [])
     @ (if contains unit ''ppp'' \<or> contains q ''ppp'' then [''ppp''] else [])
     @ (if \<not> has_growth q then
          (if contains unit ''constant'' \<or> contains unit ''real'' then [''constant_usd''] else [])
          @ (if contains unit ''current'' \<or> contains unit ''nominal'' \<or> contains unit ''usd''
             then [''current_usd''] else [])
        else [])
     @ (if has_growth q then [''growth_rate'']
        else if contains unit ''%'' \<or> contains unit ''percent'' then [''percent_share'']
        else if contains q '' rate'' then
          (if \<not> contains q ''unemployment'' \<and> \<not> contains q ''inflation'' \<and> \<not> contains q ''cpi''
           then [''percent_share''] else [])
        else [])"

definition add_count_number :: "string list \<Rightarrow> string list" where
  "add_count_number uq = (if ''count_number'' \<notin> set uq then uq @ [''count_number''] else uq)"

definition rate_words :: "string list" where
  "rate_words = [''growth'', ''%'', ''percent'', ''share'', ''ratio'']"

text \<open>The \<open>if\<close>/\<open>elif\<close> chain that sets \<open>sex\<close>, with the qualifier list it may extend.\<close>

definition sex_branch ::
  "string \<Rightarrow> string \<Rightarrow> string \<Rightarrow> string list \<Rightarrow> string \<times> string list" where
  "sex_branch cpt q demographics uq =
     (let is_demographic_concept =
            any_in [''population'', ''unemployment'', ''life_expectancy''] cpt
      in if \<not> is_demographic_concept then (''total'', uq)
         else if contains q ''total population'' \<or> contains q ''total pop''
                 \<or> (contains q ''population'' \<and> contains q ''total'') then
           (''total'', if \<not> list_ex (\<lambda>x. contains q x) rate_words then add_count_number uq else uq)
         else if list_ex (\<lambda>w. contains q w) [''female'', ''females'', ''women'', ''woman'', ''girls'']
           then (''female'', uq)
         else if list_ex (\<lambda>w. contains q w) [''male'', ''males'', ''men'', ''man'', ''boys'']
                 \<and> \<not> list_ex (\<lambda>w. contains q w) [''female'', ''females'']
           then (''male'', uq)
         else if contains demographics ''female'' \<or> contains demographics ''women''
           then (''female'', uq)
         else if (contains demographics ''male'' \<or> contains demographics ''men'')
                 \<and> \<not> contains demographics ''female''
           then (''male'', uq)
         else (''total'', uq))"

text \<open>The second literal of the age test is the source's mis-encoded en dash, as UTF-8.\<close>

definition misencoded_15_24 :: string where
  "misencoded_15_24 =
     ''15'' @ [CHR 0xC3, CHR 0xA2, CHR 0xE2, CHR 0x82, CHR 0xAC, CHR 0xE2, CHR 0x80, CHR 0x9C]
     @ ''24''"

definition age_band_of :: "string \<Rightarrow> string" where
  "age_band_of demographics =
     (let a = (if contains demographics ''65''
                  \<and> list_ex (\<lambda>x. contains demographics x) [''+'', ''plus'', ''over'', ''above'']
               then ''65up'' else ''none'')
      in if contains demographics ''15-24'' \<or> contains demographics misencoded_15_24
         then ''1524'' else a)"

definition parse_with_dspy :: "raw_extraction \<Rightarrow> string \<Rightarrow> slots" where
  "parse_with_dspy result question =
     (let q = lower question;
          concept' = normalized_concept result question;
          year_str = strip (raw_year result);
          numeric = (year_str \<noteq> [] \<and> isdigit year_str);
          latest = (\<not> numeric \<and> (contains q ''latest'' \<or> contains q ''most recent''));
          unit = lower (or_empty (none_if_none (raw_unit result)));
          uq0 = unit_qualifiers_before_sex unit q;
          demographics = lower (or_empty (none_if_none (raw_demographics result)));
          (sex', uq1) = sex_branch concept' q demographics uq0;
          uq2 = (if contains concept' ''population'' \<and> sex' = ''total''
                    \<and> \<not> list_ex (\<lambda>x. contains q x) rate_words
                 then add_count_number uq1 else uq1)
      in \<lparr>country_text = strip (raw_country result),
          time_mode = (if latest then ''latest_n'' else ''single''),
          year = (if numeric then Some (int_of_digits year_str) else None),
          start_year = None,
          end_year = None,
          latest_n = (if latest then Some 1 else None),
          concept = concept',
          unit_qualifiers = uq2,
          sex = sex',
          age_band = age_band_of demographics,
          slot_notes = ''DSPy+Ollama''\<rparr>)"

section \<open>The filter as the specification words it\<close>

text \<open>
  A candidate is rejected when PPP is requested and \<open>is_ppp\<close> fails, or a growth rate
  is requested and \<open>is_growth\<close> fails, or a percent share is requested and neither
  \<open>is_percent\<close> holds nor the name, in lower case as the code reads it, contains
  \<open>rate\<close>, or \<open>has_sex\<close> fails, or \<open>has_age\<close> fails.
\<close>

definition rejected :: "slots \<Rightarrow> candidate \<Rightarrow> bool" where
  "rejected s c =
     ((''ppp'' \<in> set (unit_qualifiers s) \<and> \<not> is_ppp (cand_id c) (cand_name c))
      \<or> (''growth_rate'' \<in> set (unit_qualifiers s) \<and> \<not> is_growth (cand_id c) (cand_name c))
      \<or> (''percent_share'' \<in> set (unit_qualifiers s)
          \<and> \<not> (is_percent (cand_id c) (cand_name c) (cand_unit c)
                 \<or> contains (lower (cand_name c)) ''rate''))
      \<or> \<not> has_sex (cand_id c) (sex s)
      \<or> \<not> has_age (cand_id c) (age_band s))"

definition soft_qualifiers :: "string set" where
  "soft_qualifiers = {''per_capita'', ''constant_usd'', ''current_usd'', ''count_number''}"

section \<open>The sub-scores as the specification words them\<close>

text \<open>
  The unit match is the number of requested qualifiers whose predicate holds for the
  candidate; the per-capita predicate is the test the scorer writes inline. The
  demographic match is the number of the two demographic predicates that hold. The
  prior is the sum of the boosts of the table that apply: 1 for an inflation concept
  with the consumer-price name or code, 1 for the concept gdp with the market-price
  code prefix, 2 for the concept population with the total-population code and sex
  total, and otherwise 0.8 for the concept population with a population code.
\<close>

definition is_per_capita :: "string \<Rightarrow> string \<Rightarrow> bool" where
  "is_per_capita ind_id name = (contains ind_id ''.PC'' \<or> contains (lower name) ''per capita'')"

definition qualifier_predicates :: "candidate \<Rightarrow> (string \<times> bool) list" where
  "qualifier_predicates c =
     [(''ppp'', is_ppp (cand_id c) (cand_name c)),
      (''growth_rate'', is_growth (cand_id c) (cand_name c)),
      (''percent_share'', is_percent (cand_id c) (cand_name c) (cand_unit c)),
      (''per_capita'', is_per_capita (cand_id c) (cand_name c)),
      (''constant_usd'', is_constant (cand_id c) (cand_name c)),
      (''current_usd'', is_current_usd (cand_id c) (cand_name c) (cand_unit c)),
      (''count_number'', is_count (cand_id c) (cand_unit c))]"

definition unit_match_spec :: "slots \<Rightarrow> candidate \<Rightarrow> real" where
  "unit_match_spec s c =
     real (length (filter (\<lambda>(q, holds). q \<in> set (unit_qualifiers s) \<and> holds)
                          (qualifier_predicates c)))"

definition demo_match_spec :: "slots \<Rightarrow> candidate \<Rightarrow> real" where
  "demo_match_spec s c =
     real (length (filter (\<lambda>holds. holds)
                          [has_sex (cand_id c) (sex s), has_age (cand_id c) (age_band s)]))"

definition boost_table :: "slots \<Rightarrow> candidate \<Rightarrow> (bool \<times> real) list" where
  "boost_table s c =
     (let cpt = lower (concept s);
          total_population = (cand_id c = ''SP.POP.TOTL'' \<and> sex s = ''total'')
      in [((cpt = ''inflation'' \<or> cpt = ''inflation_cpi'')
           \<and> (contains (lower (cand_name c)) ''consumer prices (annual %)''
                \<or> cand_id c = ''FP.CPI.TOTL.ZG''), 1),
          (cpt = ''gdp'' \<and> startswith (cand_id c) ''NY.GDP.MKTP'', 1),
          (cpt = ''population'' \<and> total_population, 2),
          (cpt = ''population'' \<and> \<not> total_population \<and> startswith (cand_id c) ''SP.POP'', 0.8)])"

definition prior_spec :: "slots \<Rightarrow> candidate \<Rightarrow> real" where
  "prior_spec s c = sum_list (map snd (filter fst (boost_table s c)))"

section \<open>Example inputs\<close>

text \<open>
  The slots of the question \<open>What is the GDP of Saudi Arabia in 2022?\<close>, the same
  slots with PPP requested, and two rows of the indicator catalog with the candidates
  \<open>resolve\<close> builds from them (pandas renders a missing cell as \<open>nan\<close>).
\<close>

definition gdp_slots :: slots where
  "gdp_slots =
     \<lparr>country_text = ''Saudi Arabia'', time_mode = ''single'', year = Some 2022,
      start_year = None, end_year = None, latest_n = None, concept = ''gdp'',
      unit_qualifiers = [], sex = ''total'', age_band = ''none'',
      slot_notes = ''DSPy+Ollama''\<rparr>"

definition gdp_ppp_slots :: slots where
  "gdp_ppp_slots = gdp_slots\<lparr>unit_qualifiers := [''ppp'']\<rparr>"

definition gdp_current_row :: catalog_row where
  "gdp_current_row =
     \<lparr>row_id = ''NY.GDP.MKTP.CD'', row_name = ''GDP (current US$)'', row_unit = ''nan'',
      row_topics = ''Economy & Growth'', row_sourceNote = ''nan'', row_source = ''nan''\<rparr>"

definition gdp_current_cand :: candidate where
  "gdp_current_cand =
     \<lparr>cand_id = ''NY.GDP.MKTP.CD'', cand_name = ''GDP (current US$)'', cand_unit = ''nan'',
      topics = ''Economy & Growth'', sourceNote = ''nan'', source = ''nan'',
      semantic = 0.82\<rparr>"

definition gdp_ppp_cand :: candidate where
  "gdp_ppp_cand =
     \<lparr>cand_id = ''NY.GDP.MKTP.PP.CD'', cand_name = ''GDP, PPP (current international $)'',
      cand_unit = ''nan'', topics = ''Economy & Growth'', sourceNote = ''nan'', source = ''nan'',
      semantic = 0.78\<rparr>"

text \<open>Slots whose concept is nothing but a gender word.\<close>

definition female_concept_slots :: slots where
  "female_concept_slots =
     \<lparr>country_text = ''Kenya'', time_mode = ''single'', year = Some 2020,
      start_year = None, end_year = None, latest_n = None, concept = ''female'',
      unit_qualifiers = [], sex = ''total'', age_band = ''none'',
      slot_notes = ''DSPy+Ollama''\<rparr>"

text \<open>
  The concept keys that open the demographic branch of the slot normalizer, and two
  extractions with their questions: a growth question whose unit field names a
  currency basis, and a GDP question whose demographics field carries gender and
  age text.
\<close>

definition demographic_keys :: "string list" where
  "demographic_keys = [''population'', ''unemployment'', ''life_expectancy'']"

definition gdp_growth_raw :: raw_extraction where
  "gdp_growth_raw =
     \<lparr>raw_country = ''Egypt'', raw_concept = ''GDP'', raw_year = ''2023'',
      raw_unit = ''constant USD'', raw_demographics = ''none''\<rparr>"

definition gdp_growth_question :: string where
  "gdp_growth_question = ''What is the GDP growth rate of Egypt in 2023?''"

definition gdp_elderly_raw :: raw_extraction where
  "gdp_elderly_raw =
     \<lparr>raw_country = ''Japan'', raw_concept = ''GDP'', raw_year = ''2022'',
      raw_unit = ''none'', raw_demographics = ''female ages 65+''\<rparr>"

definition gdp_elderly_question :: string where
  "gdp_elderly_question = ''What is the GDP of Japan in 2022?''"

text \<open>
  A catalog row whose name cell is empty; a process that has created no candidate
  yet; and the visiting order that keeps the order of first insertion.
\<close>

definition unnamed_gdp_row :: pandas_row where
  "unnamed_gdp_row =
     \<lparr>pr_id = ''NY.GDP.MKTP.CD'', pr_name = NaN, pr_unit = ''nan'',
      pr_topics = ''Economy & Growth'', pr_sourceNote = ''nan'', pr_source = ''nan''\<rparr>"

definition fresh_process :: process where
  "fresh_process = \<lparr>hash_seed = 0, objects = []\<rparr>"

definition insertion_order :: "nat \<Rightarrow> string list \<Rightarrow> string list" where
  "insertion_order seed xs = remdups xs"

section \<open>Text catalogs as catalogs of cells\<close>

definition text_row :: "catalog_row \<Rightarrow> pandas_row" where
  "text_row row =
     \<lparr>pr_id = row_id row, pr_name = Text (row_name row), pr_unit = row_unit row,
      pr_topics = row_topics row, pr_sourceNote = row_sourceNote row,
      pr_source = row_source row\<rparr>"

definition text_candidate :: "candidate \<Rightarrow> pandas_candidate" where
  "text_candidate c =
     \<lparr>pc_id = cand_id c, pc_name = Text (cand_name c), pc_unit = cand_unit c,
      pc_topics = topics c, pc_sourceNote = sourceNote c, pc_source = source c,
      pc_semantic = semantic c\<rparr>"

definition text_scored :: "scored_candidate \<Rightarrow> pandas_scored" where
  "text_scored c =
     \<lparr>pc_id = cand_id c, pc_name = Text (cand_name c), pc_unit = cand_unit c,
      pc_topics = topics c, pc_sourceNote = sourceNote c, pc_source = source c,
      pc_semantic = semantic c, pc_score = score c\<rparr>"

definition text_resolution :: "resolution \<Rightarrow> pandas_resolution" where
  "text_resolution r =
     \<lparr>pres_id = res_id r, pres_name = Text (res_name r), pres_unit = res_unit r,
      pres_margin = confidence_margin r, pres_query = notes_query r,
      pres_semantic = notes_semantic r\<rparr>"

section \<open>Facts about the example inputs\<close>

lemma clean_gdp: "clean_concept ''gdp'' = ''gdp''"
  by code_simp

lemma query_gdp: "build_query_terms remdups gdp_slots = ''gdp''"
  by (simp add: build_query_terms_def query_bits_def gdp_slots_def clean_gdp strip_def is_space_def)

lemma query_gdp_ppp: "build_query_terms remdups gdp_ppp_slots = ''gdp ppp''"
  by (simp add: build_query_terms_def query_bits_def gdp_ppp_slots_def gdp_slots_def clean_gdp
      qualifier_token_def strip_def is_space_def)

lemma build_single_gdp:
  "build_candidates (id2row (init_resolver [gdp_current_row])) [(''NY.GDP.MKTP.CD'', 0.82)]
   = [gdp_current_cand]"
  by (simp add: init_resolver_def gdp_current_row_def gdp_current_cand_def)

lemma has_sex_gdp: "has_sex ''NY.GDP.MKTP.CD'' ''total''"
  by (simp add: has_sex_def)

lemma has_sex_gdp_ppp: "has_sex ''NY.GDP.MKTP.PP.CD'' ''total''"
  by (simp add: has_sex_def)

lemma not_ppp_gdp_current: "\<not> is_ppp ''NY.GDP.MKTP.CD'' ''GDP (current US$)''"
  by code_simp

lemma is_ppp_gdp_ppp: "is_ppp ''NY.GDP.MKTP.PP.CD'' ''GDP, PPP (current international $)''"
  by (simp add: is_ppp_def)

lemma filter_single_gdp: "apply_constraints [gdp_current_cand] gdp_slots = [gdp_current_cand]"
  by (simp add: gdp_current_cand_def gdp_slots_def has_sex_gdp has_age_def)

lemma filter_ppp_empty:
  "apply_constraints (build_candidates (id2row (init_resolver [gdp_current_row]))
     [(''NY.GDP.MKTP.CD'', 0.82)]) gdp_ppp_slots = []"
  unfolding build_single_gdp
  by (simp add: gdp_ppp_slots_def gdp_slots_def gdp_current_cand_def not_ppp_gdp_current)

lemma score_single_gdp: "combined_score gdp_slots gdp_current_cand = 769 / 1000"
  by (simp add: combined_score_def unit_match_def demo_match_def prior_def hit_def
      gdp_current_cand_def gdp_slots_def has_sex_gdp has_age_def lower_def lower_char_def)

lemma rejected_gdp_current: "rejected gdp_ppp_slots gdp_current_cand"
  by (simp add: rejected_def gdp_ppp_slots_def gdp_slots_def gdp_current_cand_def
      not_ppp_gdp_current)

lemma not_rejected_gdp_ppp: "\<not> rejected gdp_ppp_slots gdp_ppp_cand"
  by (simp add: rejected_def gdp_ppp_slots_def gdp_slots_def gdp_ppp_cand_def
      is_ppp_gdp_ppp has_sex_gdp_ppp has_age_def)

section \<open>The scorer attaches a score and nothing else\<close>

lemma truncate_attach: "candidate.truncate (attach_score s c) = c"
  by (simp add: attach_score_def candidate.truncate_def candidate.extend_def)

lemma map_truncate_attach: "map candidate.truncate (map (attach_score s) cands) = cands"
  by (induction cands) (simp_all add: truncate_attach)

lemma score_attach: "score (attach_score s c) = combined_score s c"
  by (simp add: attach_score_def candidate.extend_def)

lemma semantic_attach: "semantic (attach_score s c) = semantic c"
  by (simp add: attach_score_def candidate.extend_def)

lemma length_score_candidates: "length (score_candidates xs s) = length xs"
  by (simp add: score_candidates_def sort_by_score_desc_def)

lemma score_candidates_Nil: "(score_candidates xs s = []) = (xs = [])"
  using length_score_candidates [of xs s] by (cases xs) auto

lemma score_candidates_single: "score_candidates [c] s = [attach_score s c]"
  by (simp add: score_candidates_def sort_by_score_desc_def)

lemma attach_single_gdp:
  "attach_score gdp_slots gdp_current_cand =
     \<lparr>cand_id = ''NY.GDP.MKTP.CD'', cand_name = ''GDP (current US$)'', cand_unit = ''nan'',
      topics = ''Economy & Growth'', sourceNote = ''nan'', source = ''nan'',
      semantic = 0.82, score = 769 / 1000\<rparr>"
  unfolding attach_score_def score_single_gdp
  by (simp add: candidate.extend_def gdp_current_cand_def)

text \<open>
  C10. Scoring changes no field of a candidate other than the score it attaches: each
  scored candidate, with its score taken away again, is the candidate that went in,
  both before the sort (position by position) and after it (as a multiset, since the
  sort reorders).
\<close>

theorem scoring_keeps_fields:
  "map candidate.truncate (map (attach_score s) cands) = cands
   \<and> mset (map candidate.truncate (score_candidates cands s)) = mset cands"
  by (simp add: score_candidates_def sort_by_score_desc_def map_truncate_attach
        truncate_attach multiset.map_comp o_def)

section \<open>The constraint filter\<close>

lemma apply_constraints_filter:
  "apply_constraints cands s = filter (\<lambda>c. \<not> rejected s c) cands"
  by (induction cands) (auto simp: rejected_def Let_def)

lemma rejected_soft:
  "set soft \<subseteq> soft_qualifiers \<Longrightarrow>
   rejected (s\<lparr>unit_qualifiers := unit_qualifiers s @ soft\<rparr>) c = rejected s c"
  by (auto simp: rejected_def soft_qualifiers_def)

text \<open>
  C7. The filter keeps exactly the candidates that are not rejected, in their order,
  so its result is a subsequence of its input; adding per-capita, constant-USD,
  current-USD or count-number qualifiers to the slots changes nothing.
\<close>

theorem apply_constraints_spec:
  "apply_constraints cands s = filter (\<lambda>c. \<not> rejected s c) cands
   \<and> subseq (apply_constraints cands s) cands
   \<and> (set soft \<subseteq> soft_qualifiers \<longrightarrow>
        apply_constraints cands (s\<lparr>unit_qualifiers := unit_qualifiers s @ soft\<rparr>)
        = apply_constraints cands s)"
  by (simp add: apply_constraints_filter rejected_soft)

theorem apply_constraints_spec_witness:
  "apply_constraints [gdp_current_cand, gdp_ppp_cand] gdp_ppp_slots = [gdp_ppp_cand]
   \<and> subseq [gdp_ppp_cand] [gdp_current_cand, gdp_ppp_cand]
   \<and> apply_constraints [gdp_current_cand, gdp_ppp_cand]
        (gdp_ppp_slots\<lparr>unit_qualifiers := [''ppp'', ''per_capita'', ''count_number'']\<rparr>)
      = [gdp_ppp_cand]"
proof -
  have soft: "set [''per_capita'', ''count_number''] \<subseteq> soft_qualifiers"
    by (simp add: soft_qualifiers_def)
  have uq: "unit_qualifiers gdp_ppp_slots @ [''per_capita'', ''count_number'']
            = [''ppp'', ''per_capita'', ''count_number'']"
    by (simp add: gdp_ppp_slots_def)
  from apply_constraints_spec [of "[gdp_current_cand, gdp_ppp_cand]" gdp_ppp_slots
         "[''per_capita'', ''count_number'']"] soft
  show ?thesis
    unfolding uq by (simp add: rejected_gdp_current not_rejected_gdp_ppp)
qed

section \<open>The score of a surviving candidate\<close>

lemma count_hits_Cons:
  "real (length (filter P (x # xs))) = hit (P x) + real (length (filter P xs))"
  by (simp add: hit_def)

lemma count_hits_Nil: "real (length (filter P [])) = 0"
  by simp

lemma unit_match_spec: "unit_match s c = unit_match_spec s c"
  unfolding unit_match_def unit_match_spec_def qualifier_predicates_def is_per_capita_def Let_def
    count_hits_Cons count_hits_Nil prod.case
  by (simp only: add.assoc add.commute add.left_commute add_0_left add_0_right)

lemma demo_match_spec: "demo_match s c = demo_match_spec s c"
  unfolding demo_match_def demo_match_spec_def count_hits_Cons count_hits_Nil
  by (simp only: add.assoc add_0_left add_0_right)

lemma prior_spec: "prior s c = prior_spec s c"
  by (simp add: prior_def prior_spec_def boost_table_def Let_def)

lemma mset_score_candidates:
  "mset (score_candidates cands s) = image_mset (attach_score s) (mset cands)"
  by (simp add: score_candidates_def sort_by_score_desc_def)

lemma attach_score_spec:
  "attach_score s =
     (\<lambda>c. candidate.extend c
       \<lparr>score = 0.45 * semantic c + 0.25 * unit_match_spec s c + 0.15 * demo_match_spec s c
                + 0.10 * prior_spec s c\<rparr>)"
  by (rule ext)
     (simp add: attach_score_def combined_score_def unit_match_spec demo_match_spec prior_spec)

lemma filter_ppp_pair:
  "apply_constraints [gdp_current_cand, gdp_ppp_cand] gdp_ppp_slots = [gdp_ppp_cand]"
  unfolding apply_constraints_filter
  by (simp add: rejected_gdp_current not_rejected_gdp_ppp)

lemma unit_match_spec_ppp: "unit_match_spec gdp_ppp_slots gdp_ppp_cand = 1"
  unfolding unit_match_spec_def qualifier_predicates_def count_hits_Cons count_hits_Nil prod.case
  by (simp add: hit_def gdp_ppp_slots_def gdp_slots_def gdp_ppp_cand_def is_ppp_gdp_ppp)

lemma demo_match_spec_ppp: "demo_match_spec gdp_ppp_slots gdp_ppp_cand = 2"
  by (simp add: demo_match_spec_def gdp_ppp_slots_def gdp_slots_def gdp_ppp_cand_def
      has_sex_gdp_ppp has_age_def)

lemma lower_gdp: "lower ''gdp'' = ''gdp''"
  by code_simp

lemma prior_spec_ppp: "prior_spec gdp_ppp_slots gdp_ppp_cand = 1"
  by (simp add: prior_spec_def boost_table_def gdp_ppp_slots_def gdp_slots_def gdp_ppp_cand_def
      lower_gdp)

lemma spec_score_ppp:
  "candidate.extend gdp_ppp_cand
     \<lparr>score = 0.45 * semantic gdp_ppp_cand + 0.25 * unit_match_spec gdp_ppp_slots gdp_ppp_cand
              + 0.15 * demo_match_spec gdp_ppp_slots gdp_ppp_cand
              + 0.10 * prior_spec gdp_ppp_slots gdp_ppp_cand\<rparr>
   = \<lparr>cand_id = ''NY.GDP.MKTP.PP.CD'', cand_name = ''GDP, PPP (current international $)'',
       cand_unit = ''nan'', topics = ''Economy & Growth'', sourceNote = ''nan'',
       source = ''nan'', semantic = 0.78, score = 1001 / 1000\<rparr>"
  unfolding unit_match_spec_ppp demo_match_spec_ppp prior_spec_ppp
  by (simp add: candidate.extend_def gdp_ppp_cand_def)

text \<open>
  C6. The scorer returns the candidates that survived the filter, each with the score
  \<open>0.45 * semantic + 0.25 * unitMatch + 0.15 * demoMatch + 0.10 * prior\<close> attached,
  where the three sub-scores are the counts of predicate hits and the sum of the
  boost table stated above, for that candidate.
\<close>

theorem score_formula_survivors:
  "mset (score_candidates (apply_constraints cands s) s)
   = image_mset
       (\<lambda>c. candidate.extend c
              \<lparr>score = 0.45 * semantic c + 0.25 * unit_match_spec s c
                       + 0.15 * demo_match_spec s c + 0.10 * prior_spec s c\<rparr>)
       (mset (apply_constraints cands s))"
  unfolding mset_score_candidates attach_score_spec ..

theorem score_formula_survivors_witness:
  "score_candidates (apply_constraints [gdp_current_cand, gdp_ppp_cand] gdp_ppp_slots)
     gdp_ppp_slots
   = [\<lparr>cand_id = ''NY.GDP.MKTP.PP.CD'', cand_name = ''GDP, PPP (current international $)'',
       cand_unit = ''nan'', topics = ''Economy & Growth'', sourceNote = ''nan'',
       source = ''nan'', semantic = 0.78, score = 1001 / 1000\<rparr>]
   \<and> (1001 / 1000 :: real) = 0.45 * 0.78 + 0.25 * 1 + 0.15 * 2 + 0.10 * 1"
proof -
  note m = score_formula_survivors [of "[gdp_current_cand, gdp_ppp_cand]" gdp_ppp_slots,
      unfolded filter_ppp_pair]
  have "mset (score_candidates [gdp_ppp_cand] gdp_ppp_slots)
        = {#\<lparr>cand_id = ''NY.GDP.MKTP.PP.CD'', cand_name = ''GDP, PPP (current international $)'',
       cand_unit = ''nan'', topics = ''Economy & Growth'', sourceNote = ''nan'',
       source = ''nan'', semantic = 0.78, score = 1001 / 1000\<rparr>#}"
    unfolding m by (simp only: mset.simps image_mset_add_mset image_mset_empty spec_score_ppp)
  then have "score_candidates [gdp_ppp_cand] gdp_ppp_slots
        = [\<lparr>cand_id = ''NY.GDP.MKTP.PP.CD'', cand_name = ''GDP, PPP (current international $)'',
       cand_unit = ''nan'', topics = ''Economy & Growth'', sourceNote = ''nan'',
       source = ''nan'', semantic = 0.78, score = 1001 / 1000\<rparr>]"
    by (rule mset_single_iff [THEN iffD1])
  then show ?thesis
    unfolding filter_ppp_pair by simp
qed

section \<open>The resolver\<close>

lemma resolve_Nil:
  "apply_constraints (build_candidates m r) s = [] \<Longrightarrow>
   resolve ord m s r = Inl (ValueError (no_indicator_message (build_query_terms ord s)))"
  by (simp add: resolve_def)

lemma resolve_Cons:
  assumes a: "score_candidates (apply_constraints (build_candidates m r) s) s = best # others"
  shows "resolve ord m s r =
     Inr \<lparr>res_id = cand_id best, res_name = cand_name best, res_unit = cand_unit best,
          confidence_margin =
            max 0 (score best - (case others of [] \<Rightarrow> 0 | second # _ \<Rightarrow> score second)),
          notes_query = build_query_terms ord s, notes_semantic = semantic best\<rparr>"
proof -
  have ne: "apply_constraints (build_candidates m r) s \<noteq> []"
    using a score_candidates_Nil [of "apply_constraints (build_candidates m r) s" s] by simp
  show ?thesis
    unfolding resolve_def Let_def using ne a by simp
qed

lemma scored_single_gdp:
  "score_candidates (apply_constraints (build_candidates
          (id2row (init_resolver [gdp_current_row])) [(''NY.GDP.MKTP.CD'', 0.82)]) gdp_slots)
          gdp_slots = [attach_score gdp_slots gdp_current_cand]"
  by (simp only: build_single_gdp filter_single_gdp score_candidates_single)

lemma resolve_single_gdp:
  "resolve remdups (id2row (init_resolver [gdp_current_row])) gdp_slots [(''NY.GDP.MKTP.CD'', 0.82)]
   = Inr \<lparr>res_id = ''NY.GDP.MKTP.CD'', res_name = ''GDP (current US$)'', res_unit = ''nan'',
           confidence_margin = 769 / 1000, notes_query = ''gdp'', notes_semantic = 0.82\<rparr>"
  unfolding resolve_Cons [OF scored_single_gdp] query_gdp attach_single_gdp
  by simp

text \<open>
  C1, as amended. The confidence margin of a result is never negative. When exactly
  one candidate survives the filter, the second score is taken to be 0, so the margin
  is the larger of 0 and the score of that candidate (not 0, as the claim has it).
\<close>

theorem confidence_margin_nonneg:
  assumes ok: "resolve ord m s r = Inr res"
  shows "0 \<le> confidence_margin res
         \<and> (\<forall>c. apply_constraints (build_candidates m r) s = [c]
                \<longrightarrow> confidence_margin res = max 0 (combined_score s c))"
proof (cases "score_candidates (apply_constraints (build_candidates m r) s) s")
  case Nil
  then have "apply_constraints (build_candidates m r) s = []"
    by (simp add: score_candidates_Nil)
  from resolve_Nil [OF this, of ord] ok show ?thesis by simp
next
  case (Cons best others)
  from resolve_Cons [OF Cons, of ord] ok
  have res: "confidence_margin res =
      max 0 (score best - (case others of [] \<Rightarrow> 0 | second # _ \<Rightarrow> score second))"
    by auto
  have single: "confidence_margin res = max 0 (combined_score s c)"
    if "apply_constraints (build_candidates m r) s = [c]" for c
  proof -
    from that Cons have "best = attach_score s c" and "others = []"
      by (simp_all add: score_candidates_single)
    with res show ?thesis by (simp add: score_attach)
  qed
  from res single show ?thesis by simp
qed

theorem confidence_margin_nonneg_witness:
  "(0::real) \<le> 769 / 1000 \<and> (769 / 1000 :: real) = max 0 (combined_score gdp_slots gdp_current_cand)"
proof -
  have f: "apply_constraints (build_candidates (id2row (init_resolver [gdp_current_row]))
             [(''NY.GDP.MKTP.CD'', 0.82)]) gdp_slots = [gdp_current_cand]"
    by (simp only: build_single_gdp filter_single_gdp)
  from confidence_margin_nonneg [OF resolve_single_gdp] f show ?thesis by simp
qed

text \<open>
  The claim as stated fails: one candidate survives and the margin is 0.769.
\<close>

theorem confidence_margin_single_survivor_counterexample:
  "length (apply_constraints (build_candidates (id2row (init_resolver [gdp_current_row]))
             [(''NY.GDP.MKTP.CD'', 0.82)]) gdp_slots) < 2
   \<and> resolve remdups (id2row (init_resolver [gdp_current_row])) gdp_slots
         [(''NY.GDP.MKTP.CD'', 0.82)]
       = Inr \<lparr>res_id = ''NY.GDP.MKTP.CD'', res_name = ''GDP (current US$)'', res_unit = ''nan'',
               confidence_margin = 769 / 1000, notes_query = ''gdp'', notes_semantic = 0.82\<rparr>"
  using resolve_single_gdp by (simp only: build_single_gdp filter_single_gdp) simp

text \<open>
  On a catalog whose names are all text, \<open>resolve\<close> fails exactly when the filter
  leaves no candidate, the error is the \<open>ValueError\<close> whose message quotes the
  synthesized query, and otherwise a result is returned (\<open>scored[0]\<close> never raises).
\<close>

lemma resolve_text_outcome:
  "((\<exists>e. resolve ord m s r = Inl e) \<longleftrightarrow> apply_constraints (build_candidates m r) s = [])
   \<and> (\<forall>e. resolve ord m s r = Inl e
          \<longrightarrow> e = ValueError (''No suitable indicator after constraints for query=''
                              @ [CHR 0x27] @ build_query_terms ord s @ [CHR 0x27]))
   \<and> (apply_constraints (build_candidates m r) s \<noteq> [] \<longrightarrow> (\<exists>res. resolve ord m s r = Inr res))"
proof (cases "score_candidates (apply_constraints (build_candidates m r) s) s")
  case Nil
  then have "apply_constraints (build_candidates m r) s = []"
    by (simp add: score_candidates_Nil)
  with resolve_Nil [OF this, of ord] show ?thesis by (simp add: no_indicator_message_def)
next
  case (Cons best others)
  then have "apply_constraints (build_candidates m r) s \<noteq> []"
    using score_candidates_Nil [of "apply_constraints (build_candidates m r) s" s] by simp
  with resolve_Cons [OF Cons, of ord] show ?thesis by simp
qed

lemma resolve_text_outcome_example:
  "resolve remdups (id2row (init_resolver [gdp_current_row])) gdp_ppp_slots
     [(''NY.GDP.MKTP.CD'', 0.82)]
     = Inl (ValueError (''No suitable indicator after constraints for query=''
                        @ [CHR 0x27] @ ''gdp ppp'' @ [CHR 0x27]))"
  unfolding resolve_Nil [OF filter_ppp_empty] query_gdp_ppp no_indicator_message_def ..

section \<open>The resolver on a catalog with empty name cells\<close>

lemma and_then_Inr: "and_then (Inr v) f = f v"
  by (simp add: and_then_def)

lemma and_then_Inl: "and_then (Inl e) f = Inl e"
  by (simp add: and_then_def)

lemma not_PP_gdp_current: "\<not> contains ''NY.GDP.MKTP.CD'' ''.PP''"
  by code_simp

text \<open>
  C4. The claim: \<open>resolve\<close> fails exactly when the filter leaves no candidate, with
  the error that carries the query, and in no other way. On a catalog row whose name
  cell is empty the code fails in another way: with PPP requested the filter calls
  \<open>is_ppp\<close>, the id has no \<open>.PP\<close>, and \<open>name.lower()\<close> raises \<open>AttributeError\<close>.
  The four sibling fields of the candidate are guarded by \<open>str()\<close>; the name is not.
\<close>

theorem resolve_raises_attribute_error:
  "resolve_cells remdups [''NY.GDP.MKTP.CD'' \<mapsto> unnamed_gdp_row] gdp_ppp_slots
     [(''NY.GDP.MKTP.CD'', 0.82)] = Inl AttributeError"
  by (simp add: resolve_cells_def unnamed_gdp_row_def passes_cell_def gdp_ppp_slots_def
      gdp_slots_def is_ppp_cell_def not_PP_gdp_current in_lowered_def and_then_Inl and_then_Inr)

text \<open>On names that are text the two resolvers agree.\<close>

lemma when_requested_Inr: "when_requested b (Inr x) = Inr (b \<and> x)"
  by (simp add: when_requested_def)

lemma in_lowered_Text: "in_lowered sub (Text n) = Inr (contains (lower n) sub)"
  by (simp add: in_lowered_def)

lemma in_cell_Text: "in_cell sub (Text n) = Inr (contains n sub)"
  by (simp add: in_cell_def)

lemma is_percent_cell_Text: "is_percent_cell i (Text n) u = Inr (is_percent i n u)"
  by (simp add: is_percent_cell_def is_percent_def in_cell_Text and_then_Inr)

lemma is_growth_cell_Text: "is_growth_cell i (Text n) = Inr (is_growth i n)"
  by (simp add: is_growth_cell_def is_growth_def in_lowered_Text)

lemma is_ppp_cell_Text: "is_ppp_cell i (Text n) = Inr (is_ppp i n)"
  by (simp add: is_ppp_cell_def is_ppp_def in_lowered_Text)

lemma is_constant_cell_Text: "is_constant_cell i (Text n) = Inr (is_constant i n)"
  by (simp add: is_constant_cell_def is_constant_def in_lowered_Text)

lemma is_current_usd_cell_Text: "is_current_usd_cell i (Text n) u = Inr (is_current_usd i n u)"
  by (simp add: is_current_usd_cell_def is_current_usd_def in_lowered_Text and_then_Inr)

lemma is_per_capita_cell_Text: "is_per_capita_cell i (Text n) = Inr (is_per_capita i n)"
  by (simp add: is_per_capita_cell_def is_per_capita_def in_lowered_Text)

lemmas cell_Text =
  is_percent_cell_Text is_growth_cell_Text is_ppp_cell_Text is_constant_cell_Text
  is_current_usd_cell_Text is_per_capita_cell_Text in_lowered_Text and_then_Inr
  when_requested_Inr

lemma passes_cell_Text: "passes_cell s (text_candidate c) = Inr (\<not> rejected s c)"
  by (simp add: passes_cell_def text_candidate_def rejected_def cell_Text Let_def)

lemma apply_constraints_cells_Text:
  "apply_constraints_cells (map text_candidate cs) s
   = Inr (map text_candidate (apply_constraints cs s))"
  by (induction cs) (simp_all add: passes_cell_Text and_then_Inr apply_constraints_filter)

lemma unit_match_cell_Text: "unit_match_cell s (text_candidate c) = Inr (unit_match s c)"
  unfolding unit_match_cell_def unit_match_def Let_def text_candidate_def
  by (simp only: pandas_candidate.simps cell_Text is_per_capita_def)

lemma prior_cell_Text: "prior_cell s (text_candidate c) = Inr (prior s c)"
  unfolding prior_cell_def prior_def Let_def text_candidate_def
  by (simp add: cell_Text)

lemma combined_score_cell_Text:
  "combined_score_cell s (text_candidate c) = Inr (combined_score s c)"
  unfolding combined_score_cell_def unit_match_cell_Text prior_cell_Text and_then_Inr
  by (simp add: combined_score_def demo_match_def text_candidate_def)

lemma extend_text_candidate:
  "pandas_candidate.extend (text_candidate c) \<lparr>pc_score = combined_score s c\<rparr>
   = text_scored (attach_score s c)"
  by (simp add: pandas_candidate.extend_def text_candidate_def text_scored_def attach_score_def
      candidate.extend_def)

lemma attach_scores_cells_Text:
  "attach_scores_cells (map text_candidate cs) s
   = Inr (map text_scored (map (attach_score s) cs))"
  by (induction cs) (simp_all add: combined_score_cell_Text and_then_Inr extend_text_candidate)

lemma insort_key_map:
  "insort_key f (g x) (map g xs) = map g (insort_key (\<lambda>y. f (g y)) x xs)"
  by (induction xs) simp_all

lemma sort_key_map: "sort_key f (map g xs) = map g (sort_key (\<lambda>y. f (g y)) xs)"
  by (induction xs) (simp_all add: insort_key_map)

lemma pc_score_text_scored: "pc_score (text_scored c) = score c"
  by (simp add: text_scored_def)

lemma score_candidates_cells_Text:
  "score_candidates_cells (map text_candidate cs) s
   = Inr (map text_scored (score_candidates cs s))"
  by (simp add: score_candidates_cells_def attach_scores_cells_Text and_then_Inr sort_key_map
      pc_score_text_scored score_candidates_def sort_by_score_desc_def)

lemma build_candidates_cells_Text:
  "build_candidates_cells (map_option text_row \<circ> m) r
   = map text_candidate (build_candidates m r)"
  by (induction m r rule: build_candidates.induct)
     (auto simp: text_row_def text_candidate_def split: option.splits)

lemma resolve_cells_Text:
  "resolve_cells ord (map_option text_row \<circ> m) s r
   = map_sum (\<lambda>e. e) text_resolution (resolve ord m s r)"
proof (cases "score_candidates (apply_constraints (build_candidates m r) s) s")
  case Nil
  then have e: "apply_constraints (build_candidates m r) s = []"
    by (simp add: score_candidates_Nil)
  show ?thesis
    unfolding resolve_cells_def build_candidates_cells_Text apply_constraints_cells_Text
      and_then_Inr resolve_Nil [OF e] e
    by simp
next
  case (Cons best others)
  then have ne: "apply_constraints (build_candidates m r) s \<noteq> []"
    using score_candidates_Nil [of "apply_constraints (build_candidates m r) s" s] by simp
  show ?thesis
    unfolding resolve_cells_def build_candidates_cells_Text apply_constraints_cells_Text
      and_then_Inr score_candidates_cells_Text resolve_Cons [OF Cons] Cons
    using ne
    by (cases others) (simp_all add: text_resolution_def text_scored_def)
qed

section \<open>The resolver with its candidates in memory\<close>

lemma upt_Cons_Suc: "n # [Suc n ..< Suc (n + k)] = [n ..< Suc (n + k)]"
  by (simp add: upt_conv_Cons)

lemma alloc_candidates_eq:
  "alloc_candidates m r h =
     ([length h ..< length h + length (build_candidates m r)],
      h @ map (\<lambda>c. (c, None)) (build_candidates m r))"
proof (induction m r arbitrary: h rule: build_candidates.induct)
  case (1 id2row)
  show ?case by simp
next
  case (2 id2row ind_id semantic_score rest)
  show ?case
  proof (cases "id2row ind_id")
    case None
    with "2.IH"(1) show ?thesis by simp
  next
    case (Some row)
    let ?new = "(\<lparr>cand_id = row_id row, cand_name = row_name row, cand_unit = row_unit row,
                 topics = row_topics row, sourceNote = row_sourceNote row,
                 source = row_source row, semantic = semantic_score\<rparr>, None :: real option)"
    let ?k = "length (build_candidates id2row rest)"
    have ih: "alloc_candidates id2row rest (h @ [?new]) =
        ([Suc (length h) ..< Suc (length h + ?k)],
         h @ ?new # map (\<lambda>c. (c, None)) (build_candidates id2row rest))"
      using "2.IH"(2) [OF Some, of "h @ [?new]"] by simp
    have "alloc_candidates id2row ((ind_id, semantic_score) # rest) h =
        (length h # [Suc (length h) ..< Suc (length h + ?k)],
         h @ ?new # map (\<lambda>c. (c, None)) (build_candidates id2row rest))"
      using Some ih by simp
    then show ?thesis
      unfolding upt_Cons_Suc using Some by simp
  qed
qed

lemma deref_fresh:
  "map (\<lambda>a. fst ((h @ map (\<lambda>c. (c, None)) cs) ! a)) [length h ..< length h + length cs] = cs"
  by (rule nth_equalityI) (simp_all add: nth_append)

lemma filter_refs_filter:
  "filter_refs h refs s = filter (\<lambda>a. \<not> rejected s (fst (h ! a))) refs"
  by (induction refs) (auto simp: rejected_def Let_def)

lemma deref_filter_refs:
  "map (\<lambda>a. fst (h ! a)) (filter_refs h refs s)
   = apply_constraints (map (\<lambda>a. fst (h ! a)) refs) s"
  by (simp add: filter_refs_filter apply_constraints_filter filter_map o_def)

lemma set_filter_refs: "set (filter_refs h refs s) \<subseteq> set refs"
  by (simp add: filter_refs_filter)

lemma fst_update_same: "fst (h[b := (fst (h ! b), v)] ! a) = fst (h ! a)"
proof (cases "a = b")
  case True
  then show ?thesis by (cases "b < length h") (simp_all add: list_update_beyond)
next
  case False
  then show ?thesis by simp
qed

lemma fst_score_refs: "fst (score_refs h refs s ! a) = fst (h ! a)"
  by (induction refs arbitrary: h) (simp_all add: fst_update_same)

lemma score_refs_untouched: "a \<notin> set refs \<Longrightarrow> score_refs h refs s ! a = h ! a"
  by (induction refs arbitrary: h) auto

lemma snd_score_refs:
  "a \<in> set refs \<Longrightarrow> a < length h \<Longrightarrow>
   snd (score_refs h refs s ! a) = Some (combined_score s (fst (h ! a)))"
proof (induction refs arbitrary: h)
  case Nil
  then show ?case by simp
next
  case (Cons b refs)
  let ?h1 = "h[b := (fst (h ! b), Some (combined_score s (fst (h ! b))))]"
  show ?case
  proof (cases "a \<in> set refs")
    case True
    from Cons.IH [OF True, of ?h1] Cons.prems show ?thesis
      by (simp add: fst_update_same)
  next
    case False
    with Cons.prems have ab: "a = b" by simp
    from False have "score_refs ?h1 refs s ! a = ?h1 ! a"
      by (rule score_refs_untouched)
    with ab Cons.prems show ?thesis by simp
  qed
qed

lemma insort_key_cong_set:
  "f x = g x \<Longrightarrow> (\<And>y. y \<in> set ys \<Longrightarrow> f y = g y) \<Longrightarrow>
   insort_key f x ys = insort_key g x ys"
  by (induction ys) simp_all

lemma sort_key_cong_set:
  "(\<And>x. x \<in> set xs \<Longrightarrow> f x = g x) \<Longrightarrow> sort_key f xs = sort_key g xs"
proof (induction xs)
  case Nil
  show ?case by simp
next
  case (Cons x xs)
  then have ih: "sort_key f xs = sort_key g xs" by simp
  have "insort_key f x (sort_key g xs) = insort_key g x (sort_key g xs)"
    by (rule insort_key_cong_set) (simp_all add: Cons.prems)
  with ih show ?case by simp
qed

lemma sort_refs_scored:
  assumes inside: "\<And>a. a \<in> set refs \<Longrightarrow> a < length h"
  shows "sort_refs (score_refs h refs s) refs
         = Inr (sort_key (\<lambda>a. - combined_score s (fst (h ! a))) refs)"
proof -
  have scored: "snd (score_refs h refs s ! a) = Some (combined_score s (fst (h ! a)))"
    if "a \<in> set refs" for a
    using that inside [OF that] by (rule snd_score_refs)
  then have all: "list_all (\<lambda>a. snd (score_refs h refs s ! a) \<noteq> None) refs"
    by (simp add: list_all_iff)
  have "sort_key (\<lambda>a. - the (snd (score_refs h refs s ! a))) refs
        = sort_key (\<lambda>a. - combined_score s (fst (h ! a))) refs"
    by (rule sort_key_cong_set) (simp add: scored)
  with all show ?thesis by (simp add: sort_refs_def)
qed

lemma read_score_scored:
  "a \<in> set refs \<Longrightarrow> a < length h \<Longrightarrow>
   read_score (score_refs h refs s) a = Inr (combined_score s (fst (h ! a)))"
  by (simp add: read_score_def snd_score_refs)

lemma score_candidates_deref:
  "score_candidates (map (\<lambda>a. fst (h ! a)) refs) s
   = map (\<lambda>a. attach_score s (fst (h ! a)))
       (sort_key (\<lambda>a. - combined_score s (fst (h ! a))) refs)"
proof -
  have "score_candidates (map (\<lambda>a. fst (h ! a)) refs) s
        = sort_key (\<lambda>c. - score c) (map (\<lambda>a. attach_score s (fst (h ! a))) refs)"
    by (simp add: score_candidates_def sort_by_score_desc_def o_def)
  also have "\<dots> = map (\<lambda>a. attach_score s (fst (h ! a)))
                     (sort_key (\<lambda>a. - score (attach_score s (fst (h ! a)))) refs)"
    by (rule sort_key_map)
  finally show ?thesis by (simp add: score_attach)
qed

lemma attach_score_fields:
  "cand_id (attach_score s c) = cand_id c"
  "cand_name (attach_score s c) = cand_name c"
  "cand_unit (attach_score s c) = cand_unit c"
  by (simp_all add: attach_score_def candidate.extend_def)

lemma resolve_in_result:
  "fst (resolve_in visit m s r p) = resolve (visit (hash_seed p)) m s r"
proof -
  let ?cs = "build_candidates m r"
  let ?h1 = "objects p @ map (\<lambda>c. (c, None)) ?cs"
  let ?refs = "[length (objects p) ..< length (objects p) + length ?cs]"
  let ?fs = "filter_refs ?h1 ?refs s"
  let ?h2 = "score_refs ?h1 ?fs s"
  let ?q = "build_query_terms (visit (hash_seed p)) s"
  let ?sr = "sort_key (\<lambda>a. - combined_score s (fst (?h1 ! a))) ?fs"
  have alloc: "alloc_candidates m r (objects p) = (?refs, ?h1)"
    by (rule alloc_candidates_eq)
  have survivors: "map (\<lambda>a. fst (?h1 ! a)) ?fs = apply_constraints ?cs s"
    unfolding deref_filter_refs deref_fresh ..
  have inside: "a < length ?h1" if "a \<in> set ?fs" for a
    using that set_filter_refs [of ?h1 ?refs s] by auto
  show ?thesis
  proof (cases "?fs = []")
    case True
    with survivors have "apply_constraints ?cs s = []" by simp
    from resolve_Nil [OF this] True show ?thesis
      by (simp add: resolve_in_def alloc)
  next
    case False
    have sorted: "sort_refs ?h2 ?fs = Inr ?sr"
      by (rule sort_refs_scored) (rule inside)
    from False obtain best others where sr: "?sr = best # others"
      by (cases ?sr) (auto dest: arg_cong [where f = length])
    then have mem: "set (best # others) = set ?fs"
      by (metis set_sort)
    have best: "read_score ?h2 best = Inr (combined_score s (fst (?h1 ! best)))"
      by (rule read_score_scored) (use mem inside in auto)
    have second: "read_score ?h2 a = Inr (combined_score s (fst (?h1 ! a)))"
      if "a \<in> set others" for a
      by (rule read_score_scored) (use that mem inside in auto)
    have pure: "score_candidates (apply_constraints ?cs s) s
        = attach_score s (fst (?h1 ! best)) # map (\<lambda>a. attach_score s (fst (?h1 ! a))) others"
      unfolding survivors [symmetric] score_candidates_deref sr by simp
    have heap_side: "fst (resolve_in visit m s r p) = best_match ?q ?h2 (Inr (best # others))"
      using False by (simp add: resolve_in_def alloc Let_def sorted sr)
    show ?thesis
      unfolding heap_side resolve_Cons [OF pure]
      by (cases others)
         (simp_all add: best_match_def best second fst_score_refs attach_score_fields
            score_attach semantic_attach)
  qed
qed

lemma resolve_in_seed: "hash_seed (snd (resolve_in visit m s r p)) = hash_seed p"
  by (simp add: resolve_in_def Let_def split_beta)

lemma not_rejected_gdp_current: "\<not> rejected gdp_slots gdp_current_cand"
  by (simp add: rejected_def gdp_slots_def gdp_current_cand_def has_sex_gdp has_age_def)

lemma objects_after_single_gdp:
  "objects (snd (resolve_in insertion_order (id2row (init_resolver [gdp_current_row])) gdp_slots
      [(''NY.GDP.MKTP.CD'', 0.82)] fresh_process))
   = [(gdp_current_cand, Some (769 / 1000))]"
  unfolding resolve_in_def alloc_candidates_eq build_single_gdp
  by (simp add: fresh_process_def filter_refs_filter not_rejected_gdp_current score_single_gdp
      Let_def)

text \<open>
  C9. Two calls of \<open>resolve\<close> in one process, with the same slots and the same search
  results: the second call, made in the process as the first call left it (the scored
  candidates of the first call are still in memory, the hash seed is the same),
  returns the same result as the first.
\<close>

theorem resolve_twice_same_result:
  "fst (resolve_in visit m s r (snd (resolve_in visit m s r p)))
   = fst (resolve_in visit m s r p)"
  by (simp add: resolve_in_result resolve_in_seed)

theorem resolve_twice_same_result_witness:
  "objects (snd (resolve_in insertion_order (id2row (init_resolver [gdp_current_row])) gdp_slots
      [(''NY.GDP.MKTP.CD'', 0.82)] fresh_process))
   = [(gdp_current_cand, Some (769 / 1000))]
   \<and> fst (resolve_in insertion_order (id2row (init_resolver [gdp_current_row])) gdp_slots
      [(''NY.GDP.MKTP.CD'', 0.82)]
      (snd (resolve_in insertion_order (id2row (init_resolver [gdp_current_row])) gdp_slots
         [(''NY.GDP.MKTP.CD'', 0.82)] fresh_process)))
     = Inr \<lparr>res_id = ''NY.GDP.MKTP.CD'', res_name = ''GDP (current US$)'', res_unit = ''nan'',
             confidence_margin = 769 / 1000, notes_query = ''gdp'', notes_semantic = 0.82\<rparr>"
proof -
  have first: "fst (resolve_in insertion_order (id2row (init_resolver [gdp_current_row]))
      gdp_slots [(''NY.GDP.MKTP.CD'', 0.82)] fresh_process)
     = Inr \<lparr>res_id = ''NY.GDP.MKTP.CD'', res_name = ''GDP (current US$)'', res_unit = ''nan'',
             confidence_margin = 769 / 1000, notes_query = ''gdp'', notes_semantic = 0.82\<rparr>"
    unfolding resolve_in_result insertion_order_def by (rule resolve_single_gdp)
  show ?thesis
    unfolding resolve_twice_same_result first objects_after_single_gdp by simp
qed

section \<open>The query term builder\<close>

lemma clean_female: "clean_concept ''female'' = []"
  by code_simp

lemma strip_Nil: "strip [] = []"
  by (simp add: strip_def)

lemma strip_Nil_or_hd: "strip s = [] \<or> \<not> is_space (hd (strip s))"
proof (cases "dropWhile is_space s")
  case Nil
  show ?thesis unfolding strip_def Nil by simp
next
  case (Cons x t)
  then have x: "\<not> is_space x"
    by (metis hd_dropWhile list.sel(1) list.distinct(1))
  have "\<exists>zs. dropWhile is_space (rev t @ [x]) = zs @ [x]"
    using x by (simp add: dropWhile_append)
  then obtain zs where "dropWhile is_space (rev t @ [x]) = zs @ [x]" ..
  with Cons have "strip s = x # rev zs"
    by (simp add: strip_def)
  with x show ?thesis by simp
qed

lemma strip_not_Nil: "s \<noteq> [] \<Longrightarrow> \<not> is_space (hd s) \<Longrightarrow> strip s \<noteq> []"
proof -
  assume "s \<noteq> []" and h: "\<not> is_space (hd s)"
  then obtain x t where s: "s = x # t" by (cases s) auto
  with h have "dropWhile is_space s = x # t" by simp
  moreover have "dropWhile is_space (rev t @ [x]) \<noteq> []"
    using h s by (simp add: dropWhile_append)
  ultimately show ?thesis by (simp add: strip_def)
qed

lemma join_spaces_Cons: "b \<noteq> [] \<Longrightarrow> join_spaces (b # bs) \<noteq> [] \<and> hd (join_spaces (b # bs)) = hd b"
  by (cases bs) auto

lemma clean_concept_strip: "clean_concept raw = [] \<or> \<not> is_space (hd (clean_concept raw))"
  unfolding clean_concept_def Let_def by (rule strip_Nil_or_hd)

lemma query_bits_concept:
  "clean_concept (concept s) \<noteq> [] \<Longrightarrow> clean_concept (concept s) \<noteq> ''unknown'' \<Longrightarrow>
   \<exists>bs. query_bits ord s = clean_concept (concept s) # bs"
  by (simp add: query_bits_def Let_def)

lemma bits_female: "query_bits remdups female_concept_slots = []"
  by (simp add: query_bits_def female_concept_slots_def clean_female)

text \<open>
  C2, as amended. When the joined tokens are empty, \<open>build_query_terms\<close> returns the
  cleaned concept (the variable \<open>concept\<close> after the substitutions), not the raw one;
  in that case the cleaned concept is the empty string or \<open>unknown\<close>.
\<close>

theorem build_query_terms_fallback:
  assumes empty: "strip (join_spaces (query_bits ord s)) = []"
  shows "build_query_terms ord s = clean_concept (concept s)
         \<and> (clean_concept (concept s) = [] \<or> clean_concept (concept s) = ''unknown'')"
proof -
  have ret: "build_query_terms ord s = clean_concept (concept s)"
    using empty by (simp add: build_query_terms_def)
  have "clean_concept (concept s) = [] \<or> clean_concept (concept s) = ''unknown''"
  proof (rule ccontr)
    assume "\<not> ?thesis"
    then have ne: "clean_concept (concept s) \<noteq> []" and nu: "clean_concept (concept s) \<noteq> ''unknown''"
      by simp_all
    from query_bits_concept [OF ne nu, of ord] obtain bs
      where bits: "query_bits ord s = clean_concept (concept s) # bs" ..
    from ne clean_concept_strip [of "concept s"]
    have "\<not> is_space (hd (clean_concept (concept s)))" by simp
    with join_spaces_Cons [OF ne, of bs] bits
    have "join_spaces (query_bits ord s) \<noteq> []"
      and "\<not> is_space (hd (join_spaces (query_bits ord s)))"
      by simp_all
    then have "strip (join_spaces (query_bits ord s)) \<noteq> []"
      by (rule strip_not_Nil)
    with empty show False by simp
  qed
  with ret show ?thesis by simp
qed

theorem build_query_terms_fallback_witness:
  "build_query_terms remdups female_concept_slots = clean_concept ''female''
   \<and> (clean_concept ''female'' = [] \<or> clean_concept ''female'' = ''unknown'')"
proof -
  have "strip (join_spaces (query_bits remdups female_concept_slots)) = []"
    by (simp add: bits_female strip_Nil)
  from build_query_terms_fallback [OF this] show ?thesis
    by (simp add: female_concept_slots_def)
qed

text \<open>
  The claim as stated fails: for the raw concept \<open>female\<close> the tokens are empty and
  the result is the empty string.
\<close>

theorem build_query_terms_fallback_raw_counterexample:
  "strip (join_spaces (query_bits remdups female_concept_slots)) = []
   \<and> build_query_terms remdups female_concept_slots = []
   \<and> concept female_concept_slots = ''female''
   \<and> build_query_terms remdups female_concept_slots \<noteq> concept female_concept_slots"
proof -
  have c: "concept female_concept_slots = ''female''"
    by (simp add: female_concept_slots_def)
  show ?thesis
    unfolding build_query_terms_def bits_female c clean_female by (simp add: strip_Nil)
qed

section \<open>The slot normalizer\<close>

lemma set_add_count_number: "set (add_count_number uq) = insert ''count_number'' (set uq)"
  by (auto simp: add_count_number_def)

lemma sex_branch_qualifiers:
  "x \<noteq> ''count_number'' \<Longrightarrow>
   x \<in> set (snd (sex_branch c q d uq)) \<longleftrightarrow> x \<in> set uq"
  by (simp add: sex_branch_def Let_def set_add_count_number)

lemma parse_qualifiers:
  "x \<noteq> ''count_number'' \<Longrightarrow>
   x \<in> set (unit_qualifiers (parse_with_dspy result question)) \<longleftrightarrow>
   x \<in> set (unit_qualifiers_before_sex (lower (or_empty (none_if_none (raw_unit result))))
              (lower question))"
  using sex_branch_qualifiers [of x]
  by (simp add: parse_with_dspy_def Let_def split_beta set_add_count_number)

lemma growth_before_sex:
  "''growth_rate'' \<in> set (unit_qualifiers_before_sex unit q) \<longleftrightarrow> has_growth q"
  by (simp add: unit_qualifiers_before_sex_def)

lemma constant_before_sex:
  "''constant_usd'' \<in> set (unit_qualifiers_before_sex unit q) \<Longrightarrow> \<not> has_growth q"
  by (auto simp: unit_qualifiers_before_sex_def split: if_splits)

lemma current_before_sex:
  "''current_usd'' \<in> set (unit_qualifiers_before_sex unit q) \<Longrightarrow> \<not> has_growth q"
  by (auto simp: unit_qualifiers_before_sex_def split: if_splits)

lemma has_growth_example: "has_growth (lower gdp_growth_question)"
  by code_simp

text \<open>
  C5. The unit qualifiers of the slot normalizer never hold \<open>growth_rate\<close> together
  with \<open>constant_usd\<close> or \<open>current_usd\<close>; when the question has growth wording,
  \<open>growth_rate\<close> is there and the two currency-basis qualifiers are not.
\<close>

theorem growth_excludes_currency_basis:
  "\<not> (''growth_rate'' \<in> set (unit_qualifiers (parse_with_dspy result question))
      \<and> (''constant_usd'' \<in> set (unit_qualifiers (parse_with_dspy result question))
          \<or> ''current_usd'' \<in> set (unit_qualifiers (parse_with_dspy result question))))
   \<and> (has_growth (lower question) \<longrightarrow>
        ''growth_rate'' \<in> set (unit_qualifiers (parse_with_dspy result question))
        \<and> ''constant_usd'' \<notin> set (unit_qualifiers (parse_with_dspy result question))
        \<and> ''current_usd'' \<notin> set (unit_qualifiers (parse_with_dspy result question)))"
  using constant_before_sex current_before_sex
  by (auto simp: parse_qualifiers growth_before_sex)

theorem growth_excludes_currency_basis_witness:
  "''growth_rate'' \<in> set (unit_qualifiers (parse_with_dspy gdp_growth_raw gdp_growth_question))
   \<and> ''constant_usd'' \<notin> set (unit_qualifiers (parse_with_dspy gdp_growth_raw gdp_growth_question))
   \<and> ''current_usd'' \<notin> set (unit_qualifiers (parse_with_dspy gdp_growth_raw gdp_growth_question))"
  using growth_excludes_currency_basis [of gdp_growth_raw gdp_growth_question] has_growth_example
  by blast

lemma concept_parse: "concept (parse_with_dspy result question) = normalized_concept result question"
  by (simp add: parse_with_dspy_def Let_def split_beta)

lemma not_population:
  "\<not> any_in demographic_keys c \<Longrightarrow> \<not> contains c ''population''"
  by (simp add: any_in_def demographic_keys_def)

lemma sex_branch_non_demographic:
  "\<not> any_in demographic_keys c \<Longrightarrow> sex_branch c q d uq = (''total'', uq)"
  by (simp add: sex_branch_def demographic_keys_def)

lemma normalized_concept_demographics:
  "normalized_concept (result\<lparr>raw_demographics := d\<rparr>) question = normalized_concept result question"
  by (simp add: normalized_concept_def)

lemma gdp_not_demographic:
  "\<not> any_in demographic_keys (normalized_concept gdp_elderly_raw gdp_elderly_question)"
  by code_simp

lemma age_band_elderly: "age_band_of (lower (or_empty (none_if_none ''female ages 65+''))) = ''65up''"
  by code_simp

lemma age_band_none: "age_band_of (lower (or_empty (none_if_none ''none''))) = ''none''"
  by code_simp

lemma age_band_parse:
  "age_band (parse_with_dspy result question)
   = age_band_of (lower (or_empty (none_if_none (raw_demographics result))))"
  by (simp add: parse_with_dspy_def Let_def split_beta)

text \<open>
  C8, as amended. When the normalized concept contains none of \<open>population\<close>,
  \<open>unemployment\<close>, \<open>life_expectancy\<close>, the sex is \<open>total\<close> whatever the question
  and the demographics field say. The demographics field is not ignored altogether:
  it still sets the age band, and nothing else in the slots depends on it.
\<close>

theorem non_demographic_sex_total:
  assumes nd: "\<not> any_in demographic_keys (normalized_concept result question)"
  shows "sex (parse_with_dspy result question) = ''total''
         \<and> parse_with_dspy (result\<lparr>raw_demographics := d\<rparr>) question
           = (parse_with_dspy result question)
               \<lparr>age_band := age_band_of (lower (or_empty (none_if_none d)))\<rparr>"
  by (simp add: parse_with_dspy_def Let_def normalized_concept_demographics
      sex_branch_non_demographic [OF nd] not_population [OF nd])

theorem non_demographic_sex_total_witness:
  "sex (parse_with_dspy gdp_elderly_raw gdp_elderly_question) = ''total''
   \<and> parse_with_dspy (gdp_elderly_raw\<lparr>raw_demographics := ''none''\<rparr>) gdp_elderly_question
     = (parse_with_dspy gdp_elderly_raw gdp_elderly_question)\<lparr>age_band := ''none''\<rparr>"
  using non_demographic_sex_total [OF gdp_not_demographic, of "''none''"]
  by (simp only: age_band_none)

text \<open>
  The claim as stated fails for the age text: with the concept \<open>gdp\<close>, the
  demographics \<open>female ages 65+\<close> give the age band \<open>65up\<close>, the demographics
  \<open>none\<close> give \<open>none\<close>.
\<close>

theorem demographics_age_text_counterexample:
  "\<not> any_in demographic_keys (normalized_concept gdp_elderly_raw gdp_elderly_question)
   \<and> age_band (parse_with_dspy gdp_elderly_raw gdp_elderly_question) = ''65up''
   \<and> age_band (parse_with_dspy (gdp_elderly_raw\<lparr>raw_demographics := ''none''\<rparr>)
        gdp_elderly_question) = ''none''"
proof -
  have d: "raw_demographics gdp_elderly_raw = ''female ages 65+''"
    by (simp add: gdp_elderly_raw_def)
  show ?thesis
    using gdp_not_demographic
    by (simp add: age_band_parse d age_band_elderly age_band_none)
qed

section \<open>Sex markers\<close>

text \<open>
  C3. The claim: \<open>has_sex\<close> with sex \<open>total\<close> holds exactly when the id carries no sex
  marker, so an id that satisfies \<open>has_sex\<close> for \<open>female\<close> or \<open>male\<close> never satisfies it
  for \<open>total\<close>. The female and male branches accept an id that ends in \<open>.FE\<close> or
  \<open>.MA\<close>; the total branch looks for \<open>.FE.\<close> and \<open>.MA.\<close> only. On the id
  \<open>SP.POP.0004.FE\<close> the code therefore answers yes for female and yes for total.
\<close>

theorem has_sex_total_accepts_female_suffix:
  "has_sex ''SP.POP.0004.FE'' ''female'' \<and> has_sex ''SP.POP.0004.FE'' ''total''"
  by (simp add: has_sex_def endswith_def)

end
